theory Spec2Isabelle
  imports Complex_Main "HOL-Library.Char_ord" "HOL-Library.List_Lexorder"
begin

section \<open>Data model (src/src/extension.ts, lines 6 to 41)\<close>

text \<open>
  The TypeScript interfaces become records, the string-literal unions become datatypes.
  Optional properties (\<open>note?: string\<close>) are \<open>option\<close> fields. The field names carry a
  prefix where two interfaces share a property name.
\<close>

datatype TaskLane = LaneTodo | LaneProgress | LaneDone

datatype Actor = Human | Ai

datatype TaskStatus = StatusTodo | StatusProgress | StatusDone | StatusBlocked

datatype TaskPriority = P0 | P1 | P2

record TrackerTask =
  task_id :: string
  task_title :: string
  task_note :: "string option"
  owner :: Actor
  lane :: TaskLane
  status :: TaskStatus
  effort :: "string option"
  milestone :: "string option"
  priority :: "TaskPriority option"
  task_createdAt :: "string option"

record TrackerMessage =
  msg_id :: string
  msg_from :: Actor
  msg_to :: Actor
  msg_type :: string
  msg_title :: string
  msg_body :: string
  msg_createdAt :: string
  resolved :: bool
  inReplyTo :: "string option"

text \<open>
  \<open>TrackerState\<close> is polymorphic in the element types of its two arrays: \<open>normalize\<close> and
  \<open>write\<close> never look inside an element, and at run time the elements are whatever the
  decoded file or the posted payload holds. The workflow and the view use the instance
  with \<open>TrackerTask\<close> and \<open>TrackerMessage\<close> elements, as the interfaces declare.

  A JavaScript number is a double: \<open>Finite r\<close> is the finite double of value \<open>r\<close>, and
  the three other values are the ones that are not finite. The field \<open>revision\<close> of a
  normalized state holds a finite number, so it is the rational itself. The two zeros
  of the doubles are one value here: the source tests and adds them alike.
\<close>

record ('t, 'm) TrackerState =
  revision :: rat
  updatedAt :: string
  tasks :: "'t list"
  messages :: "'m list"

datatype jsnumber = Finite rat | NaN | PosInfinity | NegInfinity

section \<open>The addition of numbers\<close>

text \<open>
  The source adds 1 to a revision in two places (extension.ts, line 273, and
  dashboard.js, line 196). JavaScript's \<open>+\<close> on two finite numbers is the exact sum
  rounded to the nearest double, a tie going to the even significand (IEEE 754,
  binary64). A double is an integer of magnitude at most \<open>2 ^ 53\<close> times a power of two,
  the unit in the last place; the least unit is \<open>2 ^ -1074\<close> and a result of magnitude
  \<open>2 ^ 1024\<close> or more is an infinity.

  \<open>last_place q\<close> is the exponent of the unit in the last place at \<open>q\<close>: the least \<open>p\<close>
  from -1074 to 971 with \<open>\<bar>q\<bar> < 2 ^ (p + 53)\<close>, if there is one.
\<close>

definition round_half_even :: "rat \<Rightarrow> int" where
  "round_half_even x =
     (let f = \<lfloor>x\<rfloor>; d = x - of_int f
      in if d < 1 / 2 then f
         else if 1 / 2 < d then f + 1
         else if even f then f else f + 1)"

fun last_place_from :: "nat \<Rightarrow> int \<Rightarrow> rat \<Rightarrow> int option" where
  "last_place_from 0 p q = None"
| "last_place_from (Suc n) p q =
     (if \<bar>q\<bar> < 2 powi (p + 53) then Some p else last_place_from n (p + 1) q)"

definition last_place :: "rat \<Rightarrow> int option" where
  "last_place q = last_place_from 2046 (- 1074) q"

definition overflow :: "rat \<Rightarrow> jsnumber" where
  "overflow q = (if q < 0 then NegInfinity else PosInfinity)"

definition round_double :: "rat \<Rightarrow> jsnumber" where
  "round_double q =
     (case last_place q of
        None \<Rightarrow> overflow q
      | Some p \<Rightarrow>
          (let m = round_half_even (q / 2 powi p)
           in if p = 971 \<and> \<bar>m\<bar> = 2 ^ 53 then overflow q
              else Finite (of_int m * 2 powi p)))"

definition js_add :: "rat \<Rightarrow> rat \<Rightarrow> jsnumber" where
  "js_add a b = round_double (a + b)"

section \<open>Values of type unknown\<close>

text \<open>
  \<open>normalize\<close> receives a value of type \<open>unknown\<close> and reads four properties from it.
  \<open>'e jsvalue\<close> is what one property read can give: \<open>JUndefined\<close> when the property is
  absent, an array with elements of type \<open>'e\<close>, a non-array object, or a primitive.
  \<open>unknown\<close> is the value itself: a primitive, an array (which has none of the four
  properties), or an object with the four property reads it answers. Properties other
  than these four are never read and do not appear.
\<close>

datatype 'e jsvalue =
    JUndefined
  | JNull
  | JBoolean bool
  | JNumber jsnumber
  | JString string
  | JArray "'e list"
  | JObject

record ('t, 'm) properties =
  p_revision :: "'t jsvalue"
  p_updatedAt :: "'t jsvalue"
  p_tasks :: "'t jsvalue"
  p_messages :: "'m jsvalue"

datatype ('t, 'm) unknown =
    UUndefined
  | UNull
  | UBoolean bool
  | UNumber jsnumber
  | UString string
  | UArray
  | UObject "('t, 'm) properties"

datatype error = TypeError | IOError

definition empty_object :: "('t, 'm) properties" where
  "empty_object =
     \<lparr>p_revision = JUndefined, p_updatedAt = JUndefined,
      p_tasks = JUndefined, p_messages = JUndefined\<rparr>"

text \<open>The nullish coalescing \<open>raw ?? {}\<close>.\<close>

definition coalesce :: "('t, 'm) unknown \<Rightarrow> ('t, 'm) unknown" where
  "coalesce raw =
     (case raw of UUndefined \<Rightarrow> UObject empty_object
                | UNull \<Rightarrow> UObject empty_object
                | _ \<Rightarrow> raw)"

text \<open>
  Reading the properties of a value: a \<open>TypeError\<close> on \<open>undefined\<close> and \<open>null\<close>,
  \<open>undefined\<close> for each of the four names on a primitive or an array.
\<close>

definition read_properties :: "('t, 'm) unknown \<Rightarrow> error + ('t, 'm) properties" where
  "read_properties v =
     (case v of UUndefined \<Rightarrow> Inl TypeError
              | UNull \<Rightarrow> Inl TypeError
              | UObject ps \<Rightarrow> Inr ps
              | _ \<Rightarrow> Inr empty_object)"

section \<open>TrackerStateStore.normalize (extension.ts, lines 163 to 171)\<close>

text \<open>
  \<open>normalize\<close> is \<open>normalize_state\<close> here (the library has a constant \<open>normalize\<close>).
  \<open>now\<close> is the reading of \<open>new Date().toISOString()\<close> at the call; the source takes it
  only when \<open>updatedAt\<close> is not a string.
\<close>

definition normalize_state :: "string \<Rightarrow> ('t, 'm) unknown \<Rightarrow> error + ('t, 'm) TrackerState" where
  "normalize_state now raw =
     (case read_properties (coalesce raw) of
        Inl e \<Rightarrow> Inl e
      | Inr v \<Rightarrow>
          Inr \<lparr>revision = (case p_revision v of JNumber (Finite r) \<Rightarrow> r | _ \<Rightarrow> 1),
               updatedAt = (case p_updatedAt v of JString s \<Rightarrow> s | _ \<Rightarrow> now),
               tasks = (case p_tasks v of JArray xs \<Rightarrow> xs | _ \<Rightarrow> []),
               messages = (case p_messages v of JArray xs \<Rightarrow> xs | _ \<Rightarrow> [])\<rparr>)"

section \<open>defaultState (extension.ts, lines 43 to 124)\<close>

text \<open>\<open>now\<close> is the one clock reading taken on entry and shared by every timestamp.\<close>

definition defaultState :: "string \<Rightarrow> (TrackerTask, TrackerMessage) TrackerState" where
  "defaultState now =
     \<lparr>revision = 1,
      updatedAt = now,
      tasks =
        [\<lparr>task_id = ''task-m1-ui-shell'',
          task_title = ''Stabilize dashboard shell and state flow'',
          task_note = Some ''Polish webview rendering, persistence, and task interactions.'',
          owner = Ai, lane = LaneProgress, status = StatusProgress,
          effort = Some ''1d'', milestone = Some ''M1 Foundation'',
          priority = Some P0, task_createdAt = Some now\<rparr>,
         \<lparr>task_id = ''task-m1-devloop'',
          task_title = ''Set up dev loop (run, build, package)'',
          task_note = Some ''Add scripts + docs for quick extension development.'',
          owner = Human, lane = LaneTodo, status = StatusTodo,
          effort = Some ''0.5d'', milestone = Some ''M1 Foundation'',
          priority = Some P1, task_createdAt = Some now\<rparr>,
         \<lparr>task_id = ''task-m2-sync'',
          task_title = ''Implement robust file-watch merge strategy'',
          task_note = Some ''Handle concurrent edits and conflict messaging.'',
          owner = Ai, lane = LaneTodo, status = StatusTodo,
          effort = Some ''1.5d'', milestone = Some ''M2 Collaboration'',
          priority = Some P0, task_createdAt = Some now\<rparr>,
         \<lparr>task_id = ''task-m2-aiops'',
          task_title = ''Create message processing workflow'',
          task_note = Some ''Support human -> ai -> human cycle directly in dashboard.'',
          owner = Human, lane = LaneProgress, status = StatusProgress,
          effort = Some ''1d'', milestone = Some ''M2 Collaboration'',
          priority = Some P1, task_createdAt = Some now\<rparr>,
         \<lparr>task_id = ''task-m3-release'',
          task_title = ''Add VSIX packaging and release CI'',
          task_note = Some ''Prepare publish-ready pipeline and versioning.'',
          owner = Human, lane = LaneTodo, status = StatusTodo,
          effort = Some ''1d'', milestone = Some ''M3 Release'',
          priority = Some P1, task_createdAt = Some now\<rparr>],
      messages =
        [\<lparr>msg_id = ''msg-start'',
          msg_from = Ai, msg_to = Human,
          msg_type = ''note'',
          msg_title = ''Tracker v1 is ready'',
          msg_body = ''Use this board to drive the extension roadmap. Start by finishing M1 Foundation tasks.'',
          msg_createdAt = now,
          resolved = False,
          inReplyTo = None\<rparr>]\<rparr>"

section \<open>The backing file and TrackerStateStore (extension.ts, lines 126 to 172)\<close>

text \<open>
  The store sees the file \<open>.tracker/state.json\<close> only through \<open>readFile\<close> followed
  by \<open>JSON.parse\<close>, and through \<open>createDirectory\<close> followed by \<open>writeFile\<close>. The model
  keeps what the first pair gives: the file is missing, cannot be read, holds text that
  \<open>JSON.parse\<close> rejects, or decodes to a value. \<open>writable\<close> says whether the second pair
  succeeds; when it does not, the rejection is the \<open>IOError\<close> and the file is as before.

  \<open>encode\<close> is the value that \<open>JSON.parse\<close> gives back for the text that
  \<open>JSON.stringify\<close> writes for a normalized state: an object with the four properties,
  a finite number, a string and two arrays.
\<close>

datatype ('t, 'm) backing_file =
    Missing
  | Unreadable
  | Malformed
  | Decodes "('t, 'm) unknown"

record ('t, 'm) filesystem =
  stored :: "('t, 'm) backing_file"
  writable :: bool

definition encode :: "('t, 'm) TrackerState \<Rightarrow> ('t, 'm) unknown" where
  "encode s =
     UObject \<lparr>p_revision = JNumber (Finite (revision s)),
              p_updatedAt = JString (updatedAt s),
              p_tasks = JArray (tasks s),
              p_messages = JArray (messages s)\<rparr>"

text \<open>
  The state object of the source after an assignment to \<open>revision\<close>, as the value of
  type \<open>unknown\<close> that \<open>write\<close> and \<open>postMessage\<close> receive: the number assigned is the
  result of an addition, finite or not.
\<close>

definition state_object :: "jsnumber \<Rightarrow> ('t, 'm) TrackerState \<Rightarrow> ('t, 'm) unknown" where
  "state_object n s =
     UObject \<lparr>p_revision = JNumber n,
              p_updatedAt = JString (updatedAt s),
              p_tasks = JArray (tasks s),
              p_messages = JArray (messages s)\<rparr>"

text \<open>
  \<open>write\<close> is \<open>write_state\<close> here (\<open>write\<close> is a command of the proof language). It
  reads the clock up to twice: inside \<open>normalize\<close> (\<open>wc_normalize\<close>) and for
  the stamp (\<open>wc_stamp\<close>).
\<close>

record write_clock =
  wc_normalize :: string
  wc_stamp :: string

definition write_state ::
  "write_clock \<Rightarrow> ('t, 'm) unknown \<Rightarrow> ('t, 'm) filesystem
     \<Rightarrow> error + (('t, 'm) TrackerState \<times> ('t, 'm) filesystem)" where
  "write_state c state fs =
     (case normalize_state (wc_normalize c) state of
        Inl e \<Rightarrow> Inl e
      | Inr n \<Rightarrow>
          (let normalized = n\<lparr>updatedAt := wc_stamp c\<rparr>
           in if writable fs
              then Inr (normalized, fs\<lparr>stored := Decodes (encode normalized)\<rparr>)
              else Inl IOError))"

text \<open>
  \<open>read\<close> reads the clock in \<open>normalize\<close> on the decoded value (\<open>rc_parsed\<close>) or, in the
  \<open>catch\<close> branch, in \<open>defaultState\<close> (\<open>rc_default\<close>) and then in \<open>write\<close> (\<open>rc_write\<close>).
  The \<open>try\<close> block covers \<open>readFile\<close>, \<open>JSON.parse\<close> and \<open>normalize\<close>; the \<open>write\<close> of the
  \<open>catch\<close> branch is outside it, and the branch returns \<open>created\<close>, not what \<open>write\<close>
  returned.
\<close>

record read_clock =
  rc_parsed :: string
  rc_default :: string
  rc_write :: write_clock

definition recover ::
  "read_clock \<Rightarrow> (TrackerTask, TrackerMessage) filesystem
     \<Rightarrow> error + ((TrackerTask, TrackerMessage) TrackerState
                 \<times> (TrackerTask, TrackerMessage) filesystem)" where
  "recover c fs =
     (let created = defaultState (rc_default c)
      in case write_state (rc_write c) (encode created) fs of
           Inl e \<Rightarrow> Inl e
         | Inr (normalized, fs') \<Rightarrow> Inr (created, fs'))"

definition read ::
  "read_clock \<Rightarrow> (TrackerTask, TrackerMessage) filesystem
     \<Rightarrow> error + ((TrackerTask, TrackerMessage) TrackerState
                 \<times> (TrackerTask, TrackerMessage) filesystem)" where
  "read c fs =
     (case stored fs of
        Decodes parsed \<Rightarrow>
          (case normalize_state (rc_parsed c) parsed of
             Inr s \<Rightarrow> Inr (s, fs)
           | Inl e \<Rightarrow> recover c fs)
      | _ \<Rightarrow> recover c fs)"

section \<open>TrackerDashboardProvider (extension.ts, lines 174 to 415)\<close>

text \<open>
  What an operation shows to the operator or posts to the view is returned as a list of
  events, in order. The provider's store is bound to the first workspace folder, and is
  absent when no folder is open: a workspace is an optional file system.
  \<open>postState\<close> and \<open>postInfo\<close> are recorded whether or not a view is attached.
\<close>

datatype notice = Warning string | Information string

datatype view_message =
    StateMsg "(TrackerTask, TrackerMessage) TrackerState"
  | InfoMsg string

datatype event = Notify notice | Post view_message

type_synonym workspace = "(TrackerTask, TrackerMessage) filesystem option"

definition pushState :: "read_clock \<Rightarrow> workspace \<Rightarrow> error + (event list \<times> workspace)" where
  "pushState c ws =
     (case ws of
        None \<Rightarrow> Inr ([Post (InfoMsg ''Open a workspace folder to use Tracker Sync Board.'')], None)
      | Some fs \<Rightarrow>
          (case read c fs of
             Inl e \<Rightarrow> Inl e
           | Inr (state, fs') \<Rightarrow> Inr ([Post (StateMsg state)], Some fs')))"

subsection \<open>processHumanMessages (lines 217 to 276)\<close>

text \<open>
  The workflow reads the properties of the messages, so the elements of \<open>messages\<close> are
  taken at their declared type \<open>TrackerMessage\<close>; the source casts and does not check
  them. The operator's two answers are arguments: the position chosen in the selection
  prompt, if any, and the text of the reply prompt, if any.
\<close>

definition is_pending :: "TrackerMessage \<Rightarrow> bool" where
  "is_pending m \<longleftrightarrow> msg_from m = Human \<and> msg_to m = Ai \<and> \<not> resolved m"

record quick_pick_item =
  item_label :: string
  item_description :: string
  item_detail :: string
  item_id :: string

definition item_of :: "TrackerMessage \<Rightarrow> quick_pick_item" where
  "item_of m =
     \<lparr>item_label = msg_title m, item_description = msg_type m,
      item_detail = msg_body m, item_id = msg_id m\<rparr>"

text \<open>
  \<open>showQuickPick\<close> resolves to one of the items it was given, or to \<open>undefined\<close> when
  the operator dismisses it. The operator's choice is the position of the item; a
  position outside the list is no selection.
\<close>

definition showQuickPick :: "'a list \<Rightarrow> nat option \<Rightarrow> 'a option" where
  "showQuickPick items choice =
     (case choice of
        None \<Rightarrow> None
      | Some k \<Rightarrow> if k < length items then Some (items ! k) else None)"

text \<open>The decimal digits of \<open>Date.now()\<close>, as the template literal prints them.\<close>

definition digit :: "nat \<Rightarrow> char" where
  "digit d = ''0123456789'' ! d"

fun decimal :: "nat \<Rightarrow> string" where
  "decimal n =
     (if n < 10 then [digit n]
      else decimal (n div 10) @ [digit (n mod 10)])"

declare decimal.simps [simp del]

definition reply :: "nat \<Rightarrow> string \<Rightarrow> string \<Rightarrow> TrackerMessage \<Rightarrow> TrackerMessage" where
  "reply millis created response source =
     \<lparr>msg_id = ''msg-'' @ decimal millis,
      msg_from = Ai,
      msg_to = Human,
      msg_type = ''response'',
      msg_title = ''Re: '' @ msg_title source,
      msg_body = response,
      msg_createdAt = created,
      resolved = False,
      inReplyTo = Some (msg_id source)\<rparr>"

text \<open>
  \<open>filter\<close> and \<open>find\<close> return the message objects of \<open>state.messages\<close> themselves,
  and \<open>source.resolved = true\<close> writes into the array through that reference. A
  reference is modelled by the position of the object in \<open>state.messages\<close>: \<open>pending\<close>
  is the list of the positions that pass the filter, in order, \<open>source\<close> is the first
  of them whose message has the picked id, and the assignment is a list update there.
\<close>

definition pending_of :: "TrackerMessage list \<Rightarrow> nat list" where
  "pending_of msgs = filter (\<lambda>i. is_pending (msgs ! i)) [0..<length msgs]"

text \<open>
  Lines 260 to 273: the three mutations of \<open>state\<close>, the last one \<open>state.revision += 1\<close>.
  The result is the object passed to \<open>write\<close>.
\<close>

definition mark_and_append ::
  "nat \<Rightarrow> string \<Rightarrow> string \<Rightarrow> nat
     \<Rightarrow> (TrackerTask, TrackerMessage) TrackerState
     \<Rightarrow> (TrackerTask, TrackerMessage) unknown" where
  "mark_and_append millis created response source state =
     (let msgs = messages state;
          marked = msgs[source := (msgs ! source)\<lparr>resolved := True\<rparr>];
          pushed = marked @ [reply millis created response (marked ! source)]
      in state_object (js_add (revision state) 1) (state\<lparr>messages := pushed\<rparr>))"

record workflow_clock =
  hc_read :: read_clock
  hc_millis :: nat
  hc_created :: string
  hc_write :: write_clock
  hc_push :: read_clock

definition processHumanMessages ::
  "workflow_clock \<Rightarrow> nat option \<Rightarrow> string option \<Rightarrow> workspace
     \<Rightarrow> error + (event list \<times> workspace)" where
  "processHumanMessages c choice response ws =
     (case ws of
        None \<Rightarrow>
          Inr ([Notify (Warning ''Open a workspace folder to use Tracker Sync Board.'')], None)
      | Some fs \<Rightarrow>
          (case read (hc_read c) fs of
             Inl e \<Rightarrow> Inl e
           | Inr (state, fs1) \<Rightarrow>
               (let msgs = messages state; pending = pending_of msgs
                in if length pending = 0
                   then Inr ([Notify (Information ''No unresolved messages from human to AI.'')],
                             Some fs1)
                   else
                     (case showQuickPick (map (\<lambda>i. item_of (msgs ! i)) pending) choice of
                        None \<Rightarrow> Inr ([], Some fs1)
                      | Some pick \<Rightarrow>
                          (case find (\<lambda>i. msg_id (msgs ! i) = item_id pick) pending of
                             None \<Rightarrow> Inr ([], Some fs1)
                           | Some source \<Rightarrow>
                               (case response of
                                  None \<Rightarrow> Inr ([], Some fs1)
                                | Some answer \<Rightarrow>
                                    if answer = [] then Inr ([], Some fs1)
                                    else
                                      (case write_state (hc_write c)
                                              (mark_and_append (hc_millis c)
                                                 (hc_created c) answer source state)
                                              fs1 of
                                         Inl e \<Rightarrow> Inl e
                                       | Inr (written, fs2) \<Rightarrow>
                                           pushState (hc_push c) (Some fs2))))))))"

subsection \<open>seedRoadmap (lines 278 to 299)\<close>

text \<open>\<open>choice\<close> is the button the modal warning resolves to, if any.\<close>

record seed_clock =
  sc_default :: string
  sc_write :: write_clock
  sc_push :: read_clock

definition seedRoadmap ::
  "seed_clock \<Rightarrow> string option \<Rightarrow> workspace \<Rightarrow> error + (event list \<times> workspace)" where
  "seedRoadmap c choice ws =
     (case ws of
        None \<Rightarrow>
          Inr ([Notify (Warning ''Open a workspace folder to use Tracker Sync Board.'')], None)
      | Some fs \<Rightarrow>
          if choice \<noteq> Some ''Replace'' then Inr ([], Some fs)
          else
            (let seeded = defaultState (sc_default c)
             in case write_state (sc_write c) (encode seeded) fs of
                  Inl e \<Rightarrow> Inl e
                | Inr (written, fs1) \<Rightarrow>
                    (case pushState (sc_push c) (Some fs1) of
                       Inl e \<Rightarrow> Inl e
                     | Inr (events, ws2) \<Rightarrow>
                         Inr (events @ [Notify (Information ''Tracker roadmap initialized.'')],
                              ws2))))"

subsection \<open>saveFromWebview (lines 367 to 381)\<close>

text \<open>The test \<open>!payload\<close> on a posted value.\<close>

definition falsy :: "('t, 'm) unknown \<Rightarrow> bool" where
  "falsy v =
     (case v of
        UUndefined \<Rightarrow> True
      | UNull \<Rightarrow> True
      | UBoolean b \<Rightarrow> \<not> b
      | UNumber n \<Rightarrow> n = Finite 0 \<or> n = NaN
      | UString s \<Rightarrow> s = []
      | UArray \<Rightarrow> False
      | UObject ps \<Rightarrow> False)"

definition saveFromWebview ::
  "write_clock \<Rightarrow> (TrackerTask, TrackerMessage) unknown \<Rightarrow> workspace
     \<Rightarrow> error + (event list \<times> workspace)" where
  "saveFromWebview c payload ws =
     (case ws of
        None \<Rightarrow> Inr ([Post (InfoMsg ''Open a workspace folder to persist tracker state.'')], None)
      | Some fs \<Rightarrow>
          if falsy payload
          then Inr ([Post (InfoMsg ''Invalid state payload from dashboard.'')], Some fs)
          else
            (case write_state c payload fs of
               Inl e \<Rightarrow> Inl e
             | Inr (saved, fs') \<Rightarrow> Inr ([Post (StateMsg saved)], Some fs')))"

section \<open>The view (src/media/dashboard.js)\<close>

text \<open>
  The view keeps its own copy of the state, replaced by every \<open>state\<close> message of the
  provider (line 315), so its \<open>revision\<close> is a finite number and its arrays hold tasks
  and messages.
\<close>

subsection \<open>nextLane and the task buttons (lines 45 to 49 and 280 to 289)\<close>

definition nextLane :: "TaskLane \<Rightarrow> TaskLane" where
  "nextLane current =
     (if current = LaneTodo then LaneProgress
      else if current = LaneProgress then LaneDone
      else LaneDone)"

text \<open>
  The click handler finds the task by id and applies the branch of the button's action to
  it, in place: \<open>advance\<close>, \<open>owner\<close> or \<open>block\<close>.
\<close>

definition advance :: "TrackerTask \<Rightarrow> TrackerTask" where
  "advance task =
     (let moved = task\<lparr>lane := nextLane (lane task)\<rparr>
      in moved\<lparr>status := (if lane moved = LaneDone then StatusDone else StatusProgress)\<rparr>)"

definition swap_owner :: "TrackerTask \<Rightarrow> TrackerTask" where
  "swap_owner task = task\<lparr>owner := (if owner task = Human then Ai else Human)\<rparr>"

definition toggle_block :: "TrackerTask \<Rightarrow> TrackerTask" where
  "toggle_block task =
     task\<lparr>status :=
       (if status task = StatusBlocked
        then (if lane task = LaneDone then StatusDone else StatusProgress)
        else StatusBlocked)\<rparr>"

subsection \<open>saveState (lines 194 to 198)\<close>

text \<open>\<open>state.revision || 0\<close> on a finite number: zero is the one falsy value.\<close>

definition or_zero :: "rat \<Rightarrow> rat" where
  "or_zero r = (if r = 0 then 0 else r)"

text \<open>
  \<open>saveState\<close> stamps the view's copy, assigns \<open>(state.revision || 0) + 1\<close> to its
  \<open>revision\<close> and posts it. The result is that object: the payload of the \<open>saveState\<close>
  message, which \<open>handleMessage\<close> passes to \<open>saveFromWebview\<close>.
\<close>

definition saveState ::
  "string \<Rightarrow> (TrackerTask, TrackerMessage) TrackerState
     \<Rightarrow> (TrackerTask, TrackerMessage) unknown" where
  "saveState now state =
     state_object (js_add (or_zero (revision state)) 1) (state\<lparr>updatedAt := now\<rparr>)"

subsection \<open>groupedMilestones and the milestone counters (lines 35 to 43 and 83 to 86)\<close>

text \<open>
  The groups are the entries of the \<open>Map\<close> in insertion order, before the final sort by
  name (which only reorders them). Each entry is counted as \<open>renderMilestones\<close> does:
  the tasks of the group in lane \<open>done\<close>, and all of them.
\<close>

definition milestone_key :: "TrackerTask \<Rightarrow> string" where
  "milestone_key task =
     (case milestone task of
        None \<Rightarrow> ''Unassigned''
      | Some name \<Rightarrow> if name = [] then ''Unassigned'' else name)"

fun group_push ::
  "string \<Rightarrow> TrackerTask \<Rightarrow> (string \<times> TrackerTask list) list
     \<Rightarrow> (string \<times> TrackerTask list) list" where
  "group_push key task [] = [(key, [task])]"
| "group_push key task ((name, members) # groups) =
     (if name = key then (name, members @ [task]) # groups
      else (name, members) # group_push key task groups)"

definition milestone_groups :: "TrackerTask list \<Rightarrow> (string \<times> TrackerTask list) list" where
  "milestone_groups ts = foldl (\<lambda>groups task. group_push (milestone_key task) task groups) [] ts"

definition milestone_counts :: "TrackerTask list \<Rightarrow> (string \<times> nat \<times> nat) list" where
  "milestone_counts ts =
     map (\<lambda>(name, members). (name, length (filter (\<lambda>t. lane t = LaneDone) members), length members))
       (milestone_groups ts)"

text \<open>The copy the view starts with, before the first \<open>state\<close> message (lines 10 to 15).\<close>

definition initial_view :: "string \<Rightarrow> (TrackerTask, TrackerMessage) TrackerState" where
  "initial_view now = \<lparr>revision = 1, updatedAt = now, tasks = [], messages = []\<rparr>"

section \<open>Notions of the specification\<close>

text \<open>
  The order of the lanes in the data model, \<open>todo\<close> before \<open>progress\<close> before \<open>done\<close>,
  and the revision held by the backing file: the one a read of the file reports, when
  the file decodes.
\<close>

definition lane_rank :: "TaskLane \<Rightarrow> nat" where
  "lane_rank l = (case l of LaneTodo \<Rightarrow> 0 | LaneProgress \<Rightarrow> 1 | LaneDone \<Rightarrow> 2)"

definition stored_revision :: "('t, 'm) filesystem \<Rightarrow> rat option" where
  "stored_revision fs =
     (case stored fs of
        Decodes raw \<Rightarrow>
          (case normalize_state [] raw of Inr s \<Rightarrow> Some (revision s) | Inl e \<Rightarrow> None)
      | _ \<Rightarrow> None)"

section \<open>Example inputs\<close>

definition example_question :: TrackerMessage where
  "example_question =
     \<lparr>msg_id = ''msg-q1'', msg_from = Human, msg_to = Ai, msg_type = ''question'',
      msg_title = ''Which lane?'', msg_body = ''Where does the sync task go?'',
      msg_createdAt = ''2026-02-18T18:00:00.000Z'', resolved = False, inReplyTo = None\<rparr>"

definition example_note :: TrackerMessage where
  "example_note =
     \<lparr>msg_id = ''msg-start'', msg_from = Ai, msg_to = Human, msg_type = ''note'',
      msg_title = ''Tracker v1 is ready'', msg_body = ''Use this board.'',
      msg_createdAt = ''2026-02-18T17:00:00.000Z'', resolved = False, inReplyTo = None\<rparr>"

definition example_state :: "(TrackerTask, TrackerMessage) TrackerState" where
  "example_state =
     \<lparr>revision = 7, updatedAt = ''2026-02-18T18:00:00.000Z'', tasks = [],
      messages = [example_note, example_question]\<rparr>"

definition example_followup :: TrackerMessage where
  "example_followup =
     \<lparr>msg_id = ''msg-q2'', msg_from = Human, msg_to = Ai, msg_type = ''question'',
      msg_title = ''And the owner?'', msg_body = ''Who takes the release task?'',
      msg_createdAt = ''2026-02-18T18:05:00.000Z'', resolved = False, inReplyTo = None\<rparr>"

definition example_thread :: "(TrackerTask, TrackerMessage) TrackerState" where
  "example_thread =
     \<lparr>revision = 7, updatedAt = ''2026-02-18T18:05:00.000Z'', tasks = [],
      messages = [example_note, example_question, example_followup]\<rparr>"

definition thread_fs :: "(TrackerTask, TrackerMessage) filesystem" where
  "thread_fs = \<lparr>stored = Decodes (encode example_thread), writable = True\<rparr>"

text \<open>Two pending messages with one id, and a document at revision \<open>2 ^ 53\<close>.\<close>

definition duplicate_thread :: "(TrackerTask, TrackerMessage) TrackerState" where
  "duplicate_thread =
     \<lparr>revision = 7, updatedAt = ''2026-02-18T18:05:00.000Z'', tasks = [],
      messages = [example_question, example_followup\<lparr>msg_id := ''msg-q1''\<rparr>]\<rparr>"

definition duplicate_fs :: "(TrackerTask, TrackerMessage) filesystem" where
  "duplicate_fs = \<lparr>stored = Decodes (encode duplicate_thread), writable = True\<rparr>"

definition saturated_state :: "(TrackerTask, TrackerMessage) TrackerState" where
  "saturated_state = example_state\<lparr>revision := 2 ^ 53\<rparr>"

definition saturated_fs :: "(TrackerTask, TrackerMessage) filesystem" where
  "saturated_fs = \<lparr>stored = Decodes (encode saturated_state), writable = True\<rparr>"

definition example_fs :: "(TrackerTask, TrackerMessage) filesystem" where
  "example_fs = \<lparr>stored = Decodes (encode example_state), writable = True\<rparr>"

definition seeded_fs :: "(TrackerTask, TrackerMessage) filesystem" where
  "seeded_fs =
     \<lparr>stored = Decodes (encode (defaultState ''2026-02-18T18:00:00.000Z'')), writable = True\<rparr>"

definition missing_fs :: "(TrackerTask, TrackerMessage) filesystem" where
  "missing_fs = \<lparr>stored = Missing, writable = True\<rparr>"

definition readonly_fs :: "(TrackerTask, TrackerMessage) filesystem" where
  "readonly_fs = \<lparr>stored = Missing, writable = False\<rparr>"

definition example_write_clock :: write_clock where
  "example_write_clock =
     \<lparr>wc_normalize = ''2026-11-03T09:15:00.001Z'', wc_stamp = ''2026-11-03T09:15:00.001Z''\<rparr>"

definition example_read_clock :: read_clock where
  "example_read_clock =
     \<lparr>rc_parsed = ''2026-11-03T09:15:00.000Z'', rc_default = ''2026-11-03T09:15:00.000Z'',
      rc_write = example_write_clock\<rparr>"

definition example_workflow_clock :: workflow_clock where
  "example_workflow_clock =
     \<lparr>hc_read = example_read_clock, hc_millis = 1793697300002,
      hc_created = ''2026-11-03T09:15:00.002Z'', hc_write = example_write_clock,
      hc_push = example_read_clock\<rparr>"

definition example_seed_clock :: seed_clock where
  "example_seed_clock =
     \<lparr>sc_default = ''2026-11-03T09:15:00.000Z'', sc_write = example_write_clock,
      sc_push = example_read_clock\<rparr>"

section \<open>Facts about the store\<close>

lemma normalize_state_encode: "normalize_state now (encode s) = Inr s"
  by (simp add: normalize_state_def encode_def coalesce_def read_properties_def)

lemma normalize_state_returns: "\<exists>s. normalize_state now raw = Inr s"
  by (cases raw) (simp_all add: normalize_state_def coalesce_def read_properties_def)

lemma write_state_eq:
  "write_state c raw fs =
     (case normalize_state (wc_normalize c) raw of
        Inl e \<Rightarrow> Inl e
      | Inr n \<Rightarrow>
          if writable fs
          then Inr (n\<lparr>updatedAt := wc_stamp c\<rparr>,
                    fs\<lparr>stored := Decodes (encode (n\<lparr>updatedAt := wc_stamp c\<rparr>))\<rparr>)
          else Inl IOError)"
  by (simp add: write_state_def Let_def split: sum.splits)

lemma write_state_encode:
  "write_state c (encode s) fs =
     (if writable fs
      then Inr (s\<lparr>updatedAt := wc_stamp c\<rparr>,
                fs\<lparr>stored := Decodes (encode (s\<lparr>updatedAt := wc_stamp c\<rparr>))\<rparr>)
      else Inl IOError)"
  by (simp add: write_state_eq normalize_state_encode)

lemma recover_eq:
  "recover c fs =
     (if writable fs
      then Inr (defaultState (rc_default c),
                fs\<lparr>stored := Decodes (encode ((defaultState (rc_default c))
                                                \<lparr>updatedAt := wc_stamp (rc_write c)\<rparr>))\<rparr>)
      else Inl IOError)"
  by (simp add: recover_def Let_def write_state_encode)

lemma read_undecodable:
  assumes "stored fs = Missing \<or> stored fs = Unreadable \<or> stored fs = Malformed"
  shows "read c fs = recover c fs"
  using assms by (auto simp add: read_def)

lemma read_decodes:
  assumes "stored fs = Decodes raw" and "normalize_state (rc_parsed c) raw = Inr s"
  shows "read c fs = Inr (s, fs)"
  using assms by (simp add: read_def)

lemma read_after_write:
  "read c (fs\<lparr>stored := Decodes (encode s)\<rparr>) = Inr (s, fs\<lparr>stored := Decodes (encode s)\<rparr>)"
  by (simp add: read_def normalize_state_encode)

lemma pushState_after_write:
  "pushState c (Some (fs\<lparr>stored := Decodes (encode s)\<rparr>))
     = Inr ([Post (StateMsg s)], Some (fs\<lparr>stored := Decodes (encode s)\<rparr>))"
  by (simp add: pushState_def read_after_write)

lemma stored_revision_encode:
  "stored_revision (fs\<lparr>stored := Decodes (encode s)\<rparr>) = Some (revision s)"
  by (simp add: stored_revision_def normalize_state_encode)

lemma encode_updatedAt: "encode s = encode s' \<Longrightarrow> updatedAt s = updatedAt s'"
  by (simp add: encode_def)

section \<open>Facts about the seed\<close>

lemma seed_counts:
  "milestone_counts (tasks (defaultState now))
     = [(''M1 Foundation'', 0, 2), (''M2 Collaboration'', 0, 2), (''M3 Release'', 0, 1)]"
  by (simp add: milestone_counts_def milestone_groups_def defaultState_def milestone_key_def)

lemma seed_shape:
  "length (tasks (defaultState now)) = 5"
  "map (\<lambda>m. (msg_from m, msg_to m, resolved m)) (messages (defaultState now)) = [(Ai, Human, False)]"
  "revision (defaultState now) = 1"
  "updatedAt (defaultState now) = now"
  by (simp_all add: defaultState_def)

lemma seed_not_pending: "pending_of (messages (defaultState now)) = []"
  by (simp add: pending_of_def defaultState_def is_pending_def)

section \<open>Facts about the workflow\<close>

lemma find_distinct_nth:
  assumes "distinct (map f xs)" and "k < length xs"
  shows "find (\<lambda>x. f x = f (xs ! k)) xs = Some (xs ! k)"
  using assms
proof (induction xs arbitrary: k)
  case Nil
  then show ?case by simp
next
  case (Cons x xs)
  show ?case
  proof (cases k)
    case 0
    then show ?thesis by simp
  next
    case (Suc j)
    with Cons.prems have j: "j < length xs" and d: "distinct (map f xs)"
      and nx: "f x \<notin> f ` set xs"
      by auto
    from j nx have "f x \<noteq> f (xs ! j)" by (metis imageI nth_mem)
    with Cons.IH[OF d j] Suc show ?thesis by simp
  qed
qed

lemma pending_of_bound:
  "i \<in> set (pending_of msgs) \<Longrightarrow> i < length msgs \<and> is_pending (msgs ! i)"
  by (auto simp add: pending_of_def)

lemma read_pending_unchanged:
  assumes "read c fs = Inr (state, fs1)" and "pending_of (messages state) \<noteq> []"
  shows "fs1 = fs"
proof (cases "stored fs")
  case (Decodes raw)
  obtain s where "normalize_state (rc_parsed c) raw = Inr s"
    using normalize_state_returns by blast
  with Decodes assms(1) show ?thesis by (simp add: read_def)
next
  case Missing
  with assms show ?thesis
    by (auto simp add: read_undecodable recover_eq seed_not_pending split: if_splits)
next
  case Unreadable
  with assms show ?thesis
    by (auto simp add: read_undecodable recover_eq seed_not_pending split: if_splits)
next
  case Malformed
  with assms show ?thesis
    by (auto simp add: read_undecodable recover_eq seed_not_pending split: if_splits)
qed

lemma example_pending: "pending_of (messages example_state) = [1]"
  by (simp add: pending_of_def example_state_def is_pending_def example_note_def
        example_question_def upt_rec)

lemma decimal_example: "decimal 1793697300002 = ''1793697300002''"
  by (simp add: decimal.simps digit_def)

section \<open>Facts about the addition\<close>

lemma round_half_even_of_int: "round_half_even (of_int k) = k"
  by (simp add: round_half_even_def)

lemma round_half_even_tie:
  "round_half_even (of_int k + 1 / 2) = (if even k then k else k + 1)"
proof -
  have "\<lfloor>(of_int k :: rat) + 1 / 2\<rfloor> = k" by (simp add: floor_eq_iff)
  then show ?thesis by (simp add: round_half_even_def)
qed

lemma last_place_from_first:
  assumes "p \<le> k" and "k < p + int n" and "\<bar>q\<bar> < 2 powi (k + 53)"
  shows "\<exists>r. last_place_from n p q = Some r \<and> p \<le> r \<and> r \<le> k"
  using assms
proof (induction n arbitrary: p)
  case 0
  then show ?case by simp
next
  case (Suc n)
  show ?case
  proof (cases "\<bar>q\<bar> < 2 powi (p + 53)")
    case True
    with Suc.prems show ?thesis by simp
  next
    case False
    with Suc.prems have "p \<noteq> k" by auto
    with Suc.prems have "p + 1 \<le> k" "k < (p + 1) + int n" by auto
    from Suc.IH[OF this Suc.prems(3)] obtain r where
      "last_place_from n (p + 1) q = Some r" "p + 1 \<le> r" "r \<le> k" by blast
    with False show ?thesis by auto
  qed
qed

lemma last_place_from_eq:
  assumes "p \<le> r" and "r < p + int n" and "\<bar>q\<bar> < 2 powi (r + 53)"
      and "\<forall>k. p \<le> k \<and> k < r \<longrightarrow> 2 powi (k + 53) \<le> \<bar>q\<bar>"
  shows "last_place_from n p q = Some r"
  using assms
proof (induction n arbitrary: p)
  case 0
  then show ?case by simp
next
  case (Suc n)
  show ?case
  proof (cases "p = r")
    case True
    with Suc.prems show ?thesis by simp
  next
    case False
    with Suc.prems have lt: "p < r" by simp
    with Suc.prems(4) have "2 powi (p + 53) \<le> \<bar>q\<bar>" by simp
    then have no: "\<not> \<bar>q\<bar> < 2 powi (p + 53)" by simp
    from lt Suc.prems have "p + 1 \<le> r" "r < (p + 1) + int n" by auto
    moreover from Suc.prems(4)
    have "\<forall>k. p + 1 \<le> k \<and> k < r \<longrightarrow> 2 powi (k + 53) \<le> \<bar>q\<bar>"
      by simp
    ultimately have "last_place_from n (p + 1) q = Some r"
      using Suc.prems(3) by (intro Suc.IH) auto
    with no show ?thesis by simp
  qed
qed

lemma last_place_eq:
  assumes "- 1074 \<le> r" and "r \<le> 971" and "\<bar>q\<bar> < 2 powi (r + 53)"
      and "r = - 1074 \<or> 2 powi (r + 52) \<le> \<bar>q\<bar>"
  shows "last_place q = Some r"
  unfolding last_place_def
proof (rule last_place_from_eq)
  show "- 1074 \<le> r" by fact
  show "r < - 1074 + int 2046" using assms(2) by simp
  show "\<bar>q\<bar> < 2 powi (r + 53)" by fact
  show "\<forall>k. - 1074 \<le> k \<and> k < r \<longrightarrow> 2 powi (k + 53) \<le> \<bar>q\<bar>"
  proof (intro allI impI)
    fix k assume k: "- 1074 \<le> k \<and> k < r"
    then have "r \<noteq> - 1074" by auto
    with assms(4) have le: "(2::rat) powi (r + 52) \<le> \<bar>q\<bar>" by simp
    from k have "k + 53 \<le> r + 52" by simp
    then have "(2::rat) powi (k + 53) \<le> 2 powi (r + 52)"
      by (rule power_int_increasing) simp
    with le show "2 powi (k + 53) \<le> \<bar>q\<bar>" by simp
  qed
qed

lemma round_double_at:
  assumes "last_place q = Some p" and "p \<noteq> 971" and "round_half_even (q / 2 powi p) = m"
  shows "round_double q = Finite (of_int m * 2 powi p)"
  using assms by (simp add: round_double_def Let_def)

text \<open>The integers below \<open>2 ^ 53\<close> in magnitude are doubles, and so is \<open>2 ^ 53\<close>.\<close>

lemma round_double_small_integer:
  assumes "\<bar>n\<bar> < 2 ^ 53"
  shows "round_double (of_int n) = Finite (of_int n)"
proof -
  have "\<bar>(of_int n :: rat)\<bar> < 2 powi (0 + 53)"
  proof -
    have "\<bar>(of_int n :: rat)\<bar> = of_int \<bar>n\<bar>" by simp
    also have "\<dots> < of_int (2 ^ 53)" using assms by (simp only: of_int_less_iff)
    finally show ?thesis by simp
  qed
  from last_place_from_first[of "- 1074" 0 2046 "of_int n", OF _ _ this]
  obtain r where r: "last_place (of_int n) = Some r" "- 1074 \<le> r" "r \<le> 0"
    unfolding last_place_def by auto
  define e where "e = nat (- r)"
  from r have re: "r = - int e" by (simp add: e_def)
  have pw: "(2::rat) powi r = inverse (2 ^ e)"
    by (simp add: re power_int_minus)
  have quot: "(of_int n :: rat) / 2 powi r = of_int (n * 2 ^ e)"
    by (simp add: pw divide_inverse)
  have m: "round_half_even ((of_int n :: rat) / 2 powi r) = n * 2 ^ e"
    unfolding quot by (rule round_half_even_of_int)
  have undo: "(of_int (n * 2 ^ e) :: rat) * 2 powi r = of_int n"
    by (simp add: pw)
  from r have "r \<noteq> 971" by simp
  from round_double_at[OF r(1) this m] show ?thesis
    by (simp only: undo)
qed

lemma round_double_2_53: "round_double (2 ^ 53) = Finite (2 ^ 53)"
proof -
  have lp: "last_place (2 ^ 53) = Some 1"
    by (rule last_place_eq) simp_all
  have q: "(2 ^ 53 :: rat) / 2 powi 1 = of_int (2 ^ 52)" by simp
  have m: "round_half_even ((2 ^ 53 :: rat) / 2 powi 1) = 2 ^ 52"
    unfolding q by (rule round_half_even_of_int)
  have "round_double (2 ^ 53) = Finite (of_int (2 ^ 52) * 2 powi 1)"
    by (rule round_double_at[OF lp _ m]) simp
  then show ?thesis by simp
qed

text \<open>Above \<open>2 ^ 53\<close> the doubles are the even integers: a tie goes to the even significand.\<close>

lemma round_double_2_53_plus_1: "round_double (2 ^ 53 + 1) = Finite (2 ^ 53)"
proof -
  have lp: "last_place (2 ^ 53 + 1) = Some 1"
    by (rule last_place_eq) simp_all
  have q: "(2 ^ 53 + 1 :: rat) / 2 powi 1 = of_int (2 ^ 52) + 1 / 2" by simp
  have m: "round_half_even ((2 ^ 53 + 1 :: rat) / 2 powi 1) = 2 ^ 52"
    unfolding q round_half_even_tie by simp
  have "round_double (2 ^ 53 + 1) = Finite (of_int (2 ^ 52) * 2 powi 1)"
    by (rule round_double_at[OF lp _ m]) simp
  then show ?thesis by simp
qed

lemma round_double_2_53_plus_3: "round_double (2 ^ 53 + 3) = Finite (2 ^ 53 + 4)"
proof -
  have lp: "last_place (2 ^ 53 + 3) = Some 1"
    by (rule last_place_eq) simp_all
  have q: "(2 ^ 53 + 3 :: rat) / 2 powi 1 = of_int (2 ^ 52 + 1) + 1 / 2" by simp
  have m: "round_half_even ((2 ^ 53 + 3 :: rat) / 2 powi 1) = 2 ^ 52 + 2"
    unfolding q round_half_even_tie by simp
  have "round_double (2 ^ 53 + 3) = Finite (of_int (2 ^ 52 + 2) * 2 powi 1)"
    by (rule round_double_at[OF lp _ m]) simp
  then show ?thesis by simp
qed

lemma js_add_safe:
  assumes "\<bar>n\<bar> \<le> 2 ^ 53 - 1"
  shows "js_add (of_int n) 1 = Finite (of_int n + 1)"
proof (cases "n + 1 = 2 ^ 53")
  case True
  then have "(of_int (n + 1) :: rat) = of_int (2 ^ 53)" by (simp only:)
  then have "(of_int n :: rat) + 1 = 2 ^ 53" by simp
  then show ?thesis by (simp only: js_add_def round_double_2_53)
next
  case False
  with assms have "\<bar>n + 1\<bar> < 2 ^ 53" by simp
  from round_double_small_integer[OF this] show ?thesis
    by (simp add: js_add_def)
qed

lemma js_add_2_53: "js_add (2 ^ 53) 1 = Finite (2 ^ 53)"
  by (simp only: js_add_def round_double_2_53_plus_1)

section \<open>Facts about the runs\<close>

lemma write_state_object:
  "write_state c (state_object n s) fs =
     (if writable fs
      then Inr (\<lparr>revision = (case n of Finite r \<Rightarrow> r | _ \<Rightarrow> 1), updatedAt = wc_stamp c,
                 tasks = tasks s, messages = messages s\<rparr>,
                fs\<lparr>stored := Decodes (encode
                  \<lparr>revision = (case n of Finite r \<Rightarrow> r | _ \<Rightarrow> 1), updatedAt = wc_stamp c,
                   tasks = tasks s, messages = messages s\<rparr>)\<rparr>)
      else Inl IOError)"
  by (simp add: write_state_eq normalize_state_def coalesce_def read_properties_def
        state_object_def)

lemma falsy_state_object: "\<not> falsy (state_object n s)"
  by (simp add: falsy_def state_object_def)

lemma mark_and_append_eq:
  assumes "src < length (messages st)"
  shows "mark_and_append ms cr ans src st =
     state_object (js_add (revision st) 1)
       (st\<lparr>messages := (messages st)[src := (messages st ! src)\<lparr>resolved := True\<rparr>]
                          @ [reply ms cr ans ((messages st ! src)\<lparr>resolved := True\<rparr>)]\<rparr>)"
  using assms by (simp add: mark_and_append_def Let_def)

lemma workflow_run_at:
  assumes rd: "read (hc_read c) fs = Inr (state, fs1)"
      and k: "k < length (pending_of (messages state))"
      and src: "find (\<lambda>i. msg_id (messages state ! i)
                            = msg_id (messages state ! (pending_of (messages state) ! k)))
                  (pending_of (messages state)) = Some src"
      and ans: "answer \<noteq> []"
      and wr: "writable fs"
  shows "processHumanMessages c (Some k) (Some answer) (Some fs) =
           Inr ([Post (StateMsg
                   \<lparr>revision = (case js_add (revision state) 1 of Finite r \<Rightarrow> r | _ \<Rightarrow> 1),
                    updatedAt = wc_stamp (hc_write c),
                    tasks = tasks state,
                    messages = (messages state)[src := (messages state ! src)\<lparr>resolved := True\<rparr>]
                                 @ [reply (hc_millis c) (hc_created c) answer
                                      ((messages state ! src)\<lparr>resolved := True\<rparr>)]\<rparr>)],
                Some (fs\<lparr>stored := Decodes (encode
                   \<lparr>revision = (case js_add (revision state) 1 of Finite r \<Rightarrow> r | _ \<Rightarrow> 1),
                    updatedAt = wc_stamp (hc_write c),
                    tasks = tasks state,
                    messages = (messages state)[src := (messages state ! src)\<lparr>resolved := True\<rparr>]
                                 @ [reply (hc_millis c) (hc_created c) answer
                                      ((messages state ! src)\<lparr>resolved := True\<rparr>)]\<rparr>)\<rparr>))"
proof -
  let ?msgs = "messages state"
  let ?pending = "pending_of ?msgs"
  from k have ne: "?pending \<noteq> []" by auto
  from read_pending_unchanged[OF rd ne] have fs1: "fs1 = fs" .
  have pick: "showQuickPick (map (\<lambda>i. item_of (?msgs ! i)) ?pending) (Some k)
                = Some (item_of (?msgs ! (?pending ! k)))"
    using k by (simp add: showQuickPick_def)
  have src': "find (\<lambda>i. msg_id (?msgs ! i) = item_id (item_of (?msgs ! (?pending ! k)))) ?pending
               = Some src"
    using src by (simp add: item_of_def)
  from src have "src \<in> set ?pending"
    by (auto simp add: find_Some_iff)
  then have bound: "src < length ?msgs" using pending_of_bound by blast
  show ?thesis
    unfolding processHumanMessages_def
    using rd ne ans wr
    by (simp add: fs1 Let_def pick src' mark_and_append_eq[OF bound] write_state_object
          pushState_after_write)
qed

lemma read_example:
  "read c (\<lparr>stored = Decodes (encode s), writable = w\<rparr>)
     = Inr (s, \<lparr>stored = Decodes (encode s), writable = w\<rparr>)"
  by (simp add: read_def normalize_state_encode)

lemma thread_pending: "pending_of (messages example_thread) = [1, 2]"
  by (simp add: pending_of_def example_thread_def is_pending_def example_note_def
        example_question_def example_followup_def upt_rec)

lemma duplicate_pending: "pending_of (messages duplicate_thread) = [0, 1]"
  by (simp add: pending_of_def duplicate_thread_def is_pending_def
        example_question_def example_followup_def upt_rec)

lemma saturated_pending: "pending_of (messages saturated_state) = [1]"
  by (simp add: saturated_state_def example_pending)

lemma js_add_examples:
  "js_add 7 1 = Finite 8" "js_add 1 1 = Finite 2"
  using js_add_safe[of 7] js_add_safe[of 1] by simp_all

lemma or_zero_of_int: "js_add (or_zero (of_int n)) 1 = js_add (of_int n) 1"
  by (simp add: or_zero_def)

lemma save_run:
  assumes "writable fs"
  shows "saveFromWebview c (saveState now view) (Some fs)
           = Inr ([Post (StateMsg
                    \<lparr>revision = (case js_add (or_zero (revision view)) 1 of
                                    Finite r \<Rightarrow> r | _ \<Rightarrow> 1),
                     updatedAt = wc_stamp c, tasks = tasks view, messages = messages view\<rparr>)],
                  Some (fs\<lparr>stored := Decodes (encode
                    \<lparr>revision = (case js_add (or_zero (revision view)) 1 of
                                    Finite r \<Rightarrow> r | _ \<Rightarrow> 1),
                     updatedAt = wc_stamp c, tasks = tasks view, messages = messages view\<rparr>)\<rparr>))"
  using assms
  by (simp add: saveFromWebview_def saveState_def falsy_state_object write_state_object)

lemma example_stored_revision: "stored_revision example_fs = Some (of_int 7)"
  by (simp add: stored_revision_def example_fs_def normalize_state_encode example_state_def)

lemma saturated_stored_revision: "stored_revision saturated_fs = Some (2 ^ 53)"
  by (simp add: stored_revision_def saturated_fs_def normalize_state_encode saturated_state_def)

section \<open>The normalizer\<close>

text \<open>
  Claim C1. For every input value (\<open>undefined\<close>, \<open>null\<close>, a primitive, an array, an
  object with any of the four properties missing or of the wrong kind) \<open>normalize\<close>
  returns a document and never an error. The document has exactly the four fields:
  \<open>revision\<close> is the input's \<open>revision\<close> when that is a finite number and 1 otherwise,
  \<open>updatedAt\<close> is the input's when that is a string and the current time otherwise,
  \<open>tasks\<close> and \<open>messages\<close> are the input's when they are arrays and empty otherwise.
  The elements of the arrays are returned as they are: the statement holds for every
  type of element.
\<close>

theorem normalize_state_total_shape:
  "normalize_state now raw =
     Inr \<lparr>revision =
            (case raw of
               UObject ps \<Rightarrow> (case p_revision ps of JNumber (Finite r) \<Rightarrow> r | _ \<Rightarrow> 1)
             | _ \<Rightarrow> 1),
          updatedAt =
            (case raw of
               UObject ps \<Rightarrow> (case p_updatedAt ps of JString s \<Rightarrow> s | _ \<Rightarrow> now)
             | _ \<Rightarrow> now),
          tasks =
            (case raw of
               UObject ps \<Rightarrow> (case p_tasks ps of JArray xs \<Rightarrow> xs | _ \<Rightarrow> [])
             | _ \<Rightarrow> []),
          messages =
            (case raw of
               UObject ps \<Rightarrow> (case p_messages ps of JArray xs \<Rightarrow> xs | _ \<Rightarrow> [])
             | _ \<Rightarrow> [])\<rparr>"
  by (cases raw)
     (simp_all add: normalize_state_def coalesce_def read_properties_def empty_object_def)

section \<open>Writing\<close>

text \<open>
  Claim C8. For every input state whose \<open>revision\<close> is a finite number, whose
  \<open>updatedAt\<close> is a string and whose \<open>tasks\<close> and \<open>messages\<close> are arrays, the document
  that \<open>write\<close> returns (and stores) has the same \<open>revision\<close>, the same \<open>tasks\<close> and the
  same \<open>messages\<close>; only \<open>updatedAt\<close> is replaced, by the stamp. \<open>write\<close> itself does not
  increment \<open>revision\<close>.
\<close>

theorem write_state_frame:
  assumes "writable fs"
  shows "\<exists>d fs'. write_state c
            (UObject \<lparr>p_revision = JNumber (Finite r), p_updatedAt = JString u,
                      p_tasks = JArray ts, p_messages = JArray ms\<rparr>) fs = Inr (d, fs')
          \<and> revision d = r \<and> tasks d = ts \<and> messages d = ms
          \<and> updatedAt d = wc_stamp c
          \<and> stored fs' = Decodes (encode d)"
  using assms
  by (simp add: write_state_eq normalize_state_def coalesce_def read_properties_def)

theorem write_state_frame_witness:
  "writable example_fs \<and>
   (\<exists>d fs'. write_state example_write_clock
            (UObject \<lparr>p_revision = JNumber (Finite 7),
                      p_updatedAt = JString ''2026-02-18T18:00:00.000Z'',
                      p_tasks = JArray [], p_messages = JArray [example_note]\<rparr>) example_fs
              = Inr (d, fs')
          \<and> revision d = 7 \<and> tasks d = [] \<and> messages d = [example_note]
          \<and> updatedAt d = wc_stamp example_write_clock
          \<and> stored fs' = Decodes (encode d))"
proof -
  have w: "writable example_fs" by (simp add: example_fs_def)
  show ?thesis using w write_state_frame[OF w] by simp
qed

text \<open>
  Claim C4, amended. For every input for which the file can be written, the document
  that \<open>write\<close> returns and stores has \<open>updatedAt\<close> equal to the clock reading of the
  stamp, whatever \<open>updatedAt\<close> the caller supplied. \<open>write\<close> does not compare the two:
  the stamp is greater than or equal to the supplied value when the supplied value is
  not later than the clock reading. Timestamps are compared as the view compares them
  (line 159): as strings.
\<close>

theorem write_state_stamps:
  assumes "writable fs"
  shows "\<exists>d fs'. write_state c raw fs = Inr (d, fs')
          \<and> updatedAt d = wc_stamp c
          \<and> stored fs' = Decodes (encode d)
          \<and> (\<forall>ps u. raw = UObject ps \<and> p_updatedAt ps = JString u \<and> u \<le> wc_stamp c
                \<longrightarrow> u \<le> updatedAt d)"
proof -
  obtain n where n: "normalize_state (wc_normalize c) raw = Inr n"
    using normalize_state_returns by blast
  show ?thesis using assms n by (simp add: write_state_eq)
qed

theorem write_state_stamps_witness:
  "writable example_fs
   \<and> encode example_state =
       UObject \<lparr>p_revision = JNumber (Finite 7),
                p_updatedAt = JString ''2026-02-18T18:00:00.000Z'',
                p_tasks = JArray [], p_messages = JArray [example_note, example_question]\<rparr>
   \<and> ''2026-02-18T18:00:00.000Z'' \<le> wc_stamp example_write_clock
   \<and> (\<exists>d fs'. write_state example_write_clock (encode example_state) example_fs = Inr (d, fs')
          \<and> updatedAt d = wc_stamp example_write_clock
          \<and> stored fs' = Decodes (encode d)
          \<and> ''2026-02-18T18:00:00.000Z'' \<le> updatedAt d)"
proof -
  have w: "writable example_fs" by (simp add: example_fs_def)
  have le: "''2026-02-18T18:00:00.000Z'' \<le> wc_stamp example_write_clock"
    by (simp add: example_write_clock_def)
  have enc: "encode example_state =
       UObject \<lparr>p_revision = JNumber (Finite 7),
                p_updatedAt = JString ''2026-02-18T18:00:00.000Z'',
                p_tasks = JArray [], p_messages = JArray [example_note, example_question]\<rparr>"
    by (simp add: encode_def example_state_def)
  from write_state_stamps[OF w, of example_write_clock "encode example_state"]
  show ?thesis using w le enc by auto
qed

text \<open>
  The claim as stated fails on a document dated after the clock reading: the file says
  2099, the clock says 2026, and the stored stamp is the earlier of the two.
\<close>

theorem write_state_future_counterexample:
  "write_state
     \<lparr>wc_normalize = ''2026-11-03T09:15:00.001Z'', wc_stamp = ''2026-11-03T09:15:00.001Z''\<rparr>
     (encode \<lparr>revision = 1, updatedAt = ''2099-01-01T00:00:00.000Z'',
              tasks = [] :: TrackerTask list, messages = [] :: TrackerMessage list\<rparr>)
     missing_fs
   = Inr (\<lparr>revision = 1, updatedAt = ''2026-11-03T09:15:00.001Z'', tasks = [], messages = []\<rparr>,
          missing_fs\<lparr>stored := Decodes (encode
            \<lparr>revision = 1, updatedAt = ''2026-11-03T09:15:00.001Z'',
             tasks = [], messages = []\<rparr>)\<rparr>)
   \<and> \<not> (''2099-01-01T00:00:00.000Z'' \<le> ''2026-11-03T09:15:00.001Z'')"
  by (simp add: write_state_encode missing_fs_def)

section \<open>Reading\<close>

text \<open>
  Claim C3, amended. If \<open>read\<close> fails to load or decode the backing file (missing,
  unreadable, malformed JSON) it does not propagate that failure: it synthesizes the
  seed document and persists it via \<open>write\<close>. When the write succeeds, \<open>read\<close> returns
  the seed document, and the document on disk has the same \<open>revision\<close>, \<open>tasks\<close> and
  \<open>messages\<close>, with \<open>updatedAt\<close> the stamp of the write. When the write fails, its
  I/O error is what \<open>read\<close> propagates.
\<close>

theorem read_recovers_seed:
  assumes "stored fs = Missing \<or> stored fs = Unreadable \<or> stored fs = Malformed"
  shows "(writable fs \<longrightarrow>
           (\<exists>written. read c fs = Inr (defaultState (rc_default c),
                                       fs\<lparr>stored := Decodes (encode written)\<rparr>)
              \<and> revision written = revision (defaultState (rc_default c))
              \<and> tasks written = tasks (defaultState (rc_default c))
              \<and> messages written = messages (defaultState (rc_default c))
              \<and> updatedAt written = wc_stamp (rc_write c)))
       \<and> (\<not> writable fs \<longrightarrow> read c fs = Inl IOError)"
  using assms by (auto simp add: read_undecodable recover_eq)

theorem read_recovers_seed_witness:
  "(stored missing_fs = Missing \<or> stored missing_fs = Unreadable
      \<or> stored missing_fs = Malformed)
   \<and> writable missing_fs
   \<and> (\<exists>written. read example_read_clock missing_fs
          = Inr (defaultState (rc_default example_read_clock),
                 missing_fs\<lparr>stored := Decodes (encode written)\<rparr>)
        \<and> revision written = revision (defaultState (rc_default example_read_clock))
        \<and> tasks written = tasks (defaultState (rc_default example_read_clock))
        \<and> messages written = messages (defaultState (rc_default example_read_clock))
        \<and> updatedAt written = wc_stamp (rc_write example_read_clock))
   \<and> (stored readonly_fs = Missing \<or> stored readonly_fs = Unreadable
        \<or> stored readonly_fs = Malformed)
   \<and> \<not> writable readonly_fs
   \<and> read example_read_clock readonly_fs = Inl IOError"
proof -
  have m: "stored missing_fs = Missing \<or> stored missing_fs = Unreadable
             \<or> stored missing_fs = Malformed"
    and w: "writable missing_fs"
    by (simp_all add: missing_fs_def)
  have r: "stored readonly_fs = Missing \<or> stored readonly_fs = Unreadable
             \<or> stored readonly_fs = Malformed"
    and nw: "\<not> writable readonly_fs"
    by (simp_all add: readonly_fs_def)
  from read_recovers_seed[OF m, of example_read_clock]
       read_recovers_seed[OF r, of example_read_clock]
  show ?thesis using m w r nw by blast
qed

text \<open>
  The claim as stated fails twice. With the file missing and the clock one millisecond
  further at the stamp than at \<open>defaultState\<close>, the document returned is not the one on
  disk: they differ in \<open>updatedAt\<close>. With the file missing and the folder not writable,
  \<open>read\<close> ends in the I/O error of the write.
\<close>

theorem read_recovery_counterexample:
  "read example_read_clock missing_fs
     = Inr (defaultState ''2026-11-03T09:15:00.000Z'',
            missing_fs\<lparr>stored := Decodes (encode
              ((defaultState ''2026-11-03T09:15:00.000Z'')
                 \<lparr>updatedAt := ''2026-11-03T09:15:00.001Z''\<rparr>))\<rparr>)
   \<and> encode ((defaultState ''2026-11-03T09:15:00.000Z'')
               \<lparr>updatedAt := ''2026-11-03T09:15:00.001Z''\<rparr>)
       \<noteq> encode (defaultState ''2026-11-03T09:15:00.000Z'')
   \<and> read example_read_clock readonly_fs = Inl IOError"
proof -
  have a: "read example_read_clock missing_fs
     = Inr (defaultState ''2026-11-03T09:15:00.000Z'',
            missing_fs\<lparr>stored := Decodes (encode
              ((defaultState ''2026-11-03T09:15:00.000Z'')
                 \<lparr>updatedAt := ''2026-11-03T09:15:00.001Z''\<rparr>))\<rparr>)"
    by (simp add: read_undecodable recover_eq missing_fs_def example_read_clock_def
          example_write_clock_def)
  have b: "encode ((defaultState ''2026-11-03T09:15:00.000Z'')
                     \<lparr>updatedAt := ''2026-11-03T09:15:00.001Z''\<rparr>)
       \<noteq> encode (defaultState ''2026-11-03T09:15:00.000Z'')"
  proof
    assume "encode ((defaultState ''2026-11-03T09:15:00.000Z'')
                      \<lparr>updatedAt := ''2026-11-03T09:15:00.001Z''\<rparr>)
       = encode (defaultState ''2026-11-03T09:15:00.000Z'')"
    from encode_updatedAt[OF this] show False by (simp add: seed_shape)
  qed
  have c: "read example_read_clock readonly_fs = Inl IOError"
    by (simp add: read_undecodable recover_eq readonly_fs_def)
  from a b c show ?thesis by blast
qed

section \<open>The message workflow\<close>

text \<open>
  Claim C5, amended. When the backing file can be loaded and decoded,
  \<open>processHumanMessages\<close> performs no write and leaves the file as it was on every
  early exit: when no message is from \<open>human\<close> to \<open>ai\<close> and unresolved (it then shows the
  advisory that none is pending), when the selection prompt gives no item, and when the
  reply prompt is cancelled or gives the empty string. When the file cannot be loaded or
  decoded, the \<open>read\<close> at the start of the run writes the seed document first: if that
  write succeeds, the run ends with the advisory that none is pending and the file holds
  the seed document, whatever the operator would answer; if that write fails, the run
  ends with its I/O error.
\<close>

theorem processHumanMessages_early_exits:
  "(stored fs = Decodes raw \<and> normalize_state (rc_parsed (hc_read c)) raw = Inr state \<longrightarrow>
      (pending_of (messages state) = [] \<longrightarrow>
         processHumanMessages c choice response (Some fs)
           = Inr ([Notify (Information ''No unresolved messages from human to AI.'')], Some fs))
      \<and> (pending_of (messages state) \<noteq> [] \<and>
           (showQuickPick (map (\<lambda>i. item_of (messages state ! i)) (pending_of (messages state)))
               choice = None
              \<or> response = None \<or> response = Some []) \<longrightarrow>
           processHumanMessages c choice response (Some fs) = Inr ([], Some fs)))
   \<and> (stored fs = Missing \<or> stored fs = Unreadable \<or> stored fs = Malformed \<longrightarrow>
        (writable fs \<longrightarrow>
           processHumanMessages c choice response (Some fs)
             = Inr ([Notify (Information ''No unresolved messages from human to AI.'')],
                    Some (fs\<lparr>stored := Decodes (encode
                      ((defaultState (rc_default (hc_read c)))
                         \<lparr>updatedAt := wc_stamp (rc_write (hc_read c))\<rparr>))\<rparr>)))
        \<and> (\<not> writable fs \<longrightarrow>
             processHumanMessages c choice response (Some fs) = Inl IOError))"
proof (intro conjI impI)
  assume "stored fs = Decodes raw \<and> normalize_state (rc_parsed (hc_read c)) raw = Inr state"
  then have rd: "read (hc_read c) fs = Inr (state, fs)"
    by (simp add: read_decodes)
  {
    assume "pending_of (messages state) = []"
    with rd show "processHumanMessages c choice response (Some fs)
           = Inr ([Notify (Information ''No unresolved messages from human to AI.'')], Some fs)"
      unfolding processHumanMessages_def by (simp add: Let_def)
  }
  {
    assume "pending_of (messages state) \<noteq> [] \<and>
           (showQuickPick (map (\<lambda>i. item_of (messages state ! i)) (pending_of (messages state)))
               choice = None
              \<or> response = None \<or> response = Some [])"
    with rd show "processHumanMessages c choice response (Some fs) = Inr ([], Some fs)"
      unfolding processHumanMessages_def
      by (auto simp add: Let_def split: option.splits)
  }
next
  assume u: "stored fs = Missing \<or> stored fs = Unreadable \<or> stored fs = Malformed"
    and w: "writable fs"
  from u w have rd: "read (hc_read c) fs
      = Inr (defaultState (rc_default (hc_read c)),
             fs\<lparr>stored := Decodes (encode
               ((defaultState (rc_default (hc_read c)))
                  \<lparr>updatedAt := wc_stamp (rc_write (hc_read c))\<rparr>))\<rparr>)"
    by (simp add: read_undecodable recover_eq)
  show "processHumanMessages c choice response (Some fs)
             = Inr ([Notify (Information ''No unresolved messages from human to AI.'')],
                    Some (fs\<lparr>stored := Decodes (encode
                      ((defaultState (rc_default (hc_read c)))
                         \<lparr>updatedAt := wc_stamp (rc_write (hc_read c))\<rparr>))\<rparr>))"
    unfolding processHumanMessages_def using rd by (simp add: Let_def seed_not_pending)
next
  assume u: "stored fs = Missing \<or> stored fs = Unreadable \<or> stored fs = Malformed"
    and w: "\<not> writable fs"
  from u w have rd: "read (hc_read c) fs = Inl IOError"
    by (simp add: read_undecodable recover_eq)
  show "processHumanMessages c choice response (Some fs) = Inl IOError"
    unfolding processHumanMessages_def using rd by simp
qed

theorem processHumanMessages_early_exits_witness:
  "stored seeded_fs = Decodes (encode (defaultState ''2026-02-18T18:00:00.000Z''))
   \<and> normalize_state (rc_parsed (hc_read example_workflow_clock))
         (encode (defaultState ''2026-02-18T18:00:00.000Z''))
       = Inr (defaultState ''2026-02-18T18:00:00.000Z'')
   \<and> pending_of (messages (defaultState ''2026-02-18T18:00:00.000Z'')) = []
   \<and> processHumanMessages example_workflow_clock (Some 0) (Some ''On it'') (Some seeded_fs)
       = Inr ([Notify (Information ''No unresolved messages from human to AI.'')], Some seeded_fs)
   \<and> stored example_fs = Decodes (encode example_state)
   \<and> normalize_state (rc_parsed (hc_read example_workflow_clock)) (encode example_state)
       = Inr example_state
   \<and> pending_of (messages example_state) \<noteq> []
   \<and> processHumanMessages example_workflow_clock None (Some ''On it'') (Some example_fs)
       = Inr ([], Some example_fs)
   \<and> processHumanMessages example_workflow_clock (Some 0) None (Some example_fs)
       = Inr ([], Some example_fs)
   \<and> processHumanMessages example_workflow_clock (Some 0) (Some []) (Some example_fs)
       = Inr ([], Some example_fs)
   \<and> stored missing_fs = Missing \<and> writable missing_fs
   \<and> processHumanMessages example_workflow_clock (Some 0) (Some ''On it'') (Some missing_fs)
       = Inr ([Notify (Information ''No unresolved messages from human to AI.'')],
              Some (missing_fs\<lparr>stored := Decodes (encode
                ((defaultState (rc_default (hc_read example_workflow_clock)))
                   \<lparr>updatedAt := wc_stamp (rc_write (hc_read example_workflow_clock))\<rparr>))\<rparr>))
   \<and> stored readonly_fs = Missing \<and> \<not> writable readonly_fs
   \<and> processHumanMessages example_workflow_clock (Some 0) (Some ''On it'') (Some readonly_fs)
       = Inl IOError"
proof -
  have d1: "stored seeded_fs = Decodes (encode (defaultState ''2026-02-18T18:00:00.000Z''))"
    by (simp add: seeded_fs_def)
  have n1: "normalize_state (rc_parsed (hc_read example_workflow_clock))
              (encode (defaultState ''2026-02-18T18:00:00.000Z''))
            = Inr (defaultState ''2026-02-18T18:00:00.000Z'')"
    by (rule normalize_state_encode)
  have p1: "pending_of (messages (defaultState ''2026-02-18T18:00:00.000Z'')) = []"
    by (rule seed_not_pending)
  have d2: "stored example_fs = Decodes (encode example_state)"
    by (simp add: example_fs_def)
  have n2: "normalize_state (rc_parsed (hc_read example_workflow_clock)) (encode example_state)
            = Inr example_state"
    by (rule normalize_state_encode)
  have p2: "pending_of (messages example_state) \<noteq> []"
    by (simp add: example_pending)
  have m: "stored missing_fs = Missing" and mw: "writable missing_fs"
    by (simp_all add: missing_fs_def)
  have r: "stored readonly_fs = Missing" and rw: "\<not> writable readonly_fs"
    by (simp_all add: readonly_fs_def)
  have q: "showQuickPick (map (\<lambda>i. item_of (messages example_state ! i))
             (pending_of (messages example_state))) None = None"
    by (simp add: showQuickPick_def)
  note a = processHumanMessages_early_exits[of seeded_fs
             "encode (defaultState ''2026-02-18T18:00:00.000Z'')" example_workflow_clock
             "defaultState ''2026-02-18T18:00:00.000Z''" "Some 0" "Some ''On it''"]
  note b = processHumanMessages_early_exits[of example_fs "encode example_state"
             example_workflow_clock example_state None "Some ''On it''"]
  note c = processHumanMessages_early_exits[of example_fs "encode example_state"
             example_workflow_clock example_state "Some 0" None]
  note d = processHumanMessages_early_exits[of example_fs "encode example_state"
             example_workflow_clock example_state "Some 0" "Some []"]
  note e = processHumanMessages_early_exits[of missing_fs _ example_workflow_clock _
             "Some 0" "Some ''On it''"]
  note f = processHumanMessages_early_exits[of readonly_fs _ example_workflow_clock _
             "Some 0" "Some ''On it''"]
  have a': "processHumanMessages example_workflow_clock (Some 0) (Some ''On it'') (Some seeded_fs)
       = Inr ([Notify (Information ''No unresolved messages from human to AI.'')], Some seeded_fs)"
    using a d1 n1 p1 by blast
  have b': "processHumanMessages example_workflow_clock None (Some ''On it'') (Some example_fs)
       = Inr ([], Some example_fs)"
    using b d2 n2 p2 q by blast
  have c': "processHumanMessages example_workflow_clock (Some 0) None (Some example_fs)
       = Inr ([], Some example_fs)"
    using c d2 n2 p2 by blast
  have d': "processHumanMessages example_workflow_clock (Some 0) (Some []) (Some example_fs)
       = Inr ([], Some example_fs)"
    using d d2 n2 p2 by blast
  have e': "processHumanMessages example_workflow_clock (Some 0) (Some ''On it'') (Some missing_fs)
       = Inr ([Notify (Information ''No unresolved messages from human to AI.'')],
              Some (missing_fs\<lparr>stored := Decodes (encode
                ((defaultState (rc_default (hc_read example_workflow_clock)))
                   \<lparr>updatedAt := wc_stamp (rc_write (hc_read example_workflow_clock))\<rparr>))\<rparr>))"
    using e m mw by blast
  have f': "processHumanMessages example_workflow_clock (Some 0) (Some ''On it'') (Some readonly_fs)
       = Inl IOError"
    using f r rw by blast
  show ?thesis
    by (intro conjI d1 n1 p1 a' d2 n2 p2 b' c' d' m mw e' r rw f')
qed

text \<open>
  The claim as stated fails when the file is missing: the run ends with the advisory
  that none is pending, and the file now holds the seed document.
\<close>

theorem processHumanMessages_recovery_counterexample:
  "stored missing_fs = Missing
   \<and> processHumanMessages example_workflow_clock None None (Some missing_fs)
       = Inr ([Notify (Information ''No unresolved messages from human to AI.'')],
              Some (missing_fs\<lparr>stored := Decodes (encode
                ((defaultState ''2026-11-03T09:15:00.000Z'')
                   \<lparr>updatedAt := ''2026-11-03T09:15:00.001Z''\<rparr>))\<rparr>))
   \<and> stored (missing_fs\<lparr>stored := Decodes (encode
         ((defaultState ''2026-11-03T09:15:00.000Z'')
            \<lparr>updatedAt := ''2026-11-03T09:15:00.001Z''\<rparr>))\<rparr>) \<noteq> stored missing_fs"
proof -
  have m: "stored missing_fs = Missing" by (simp add: missing_fs_def)
  have rd: "read (hc_read example_workflow_clock) missing_fs
     = Inr (defaultState ''2026-11-03T09:15:00.000Z'',
            missing_fs\<lparr>stored := Decodes (encode
              ((defaultState ''2026-11-03T09:15:00.000Z'')
                 \<lparr>updatedAt := ''2026-11-03T09:15:00.001Z''\<rparr>))\<rparr>)"
    by (simp add: read_undecodable recover_eq missing_fs_def example_read_clock_def
          example_write_clock_def example_workflow_clock_def)
  have run: "processHumanMessages example_workflow_clock None None (Some missing_fs)
       = Inr ([Notify (Information ''No unresolved messages from human to AI.'')],
              Some (missing_fs\<lparr>stored := Decodes (encode
                ((defaultState ''2026-11-03T09:15:00.000Z'')
                   \<lparr>updatedAt := ''2026-11-03T09:15:00.001Z''\<rparr>))\<rparr>))"
    unfolding processHumanMessages_def using rd by (simp add: Let_def seed_not_pending)
  have ne: "stored (missing_fs\<lparr>stored := Decodes (encode
         ((defaultState ''2026-11-03T09:15:00.000Z'')
            \<lparr>updatedAt := ''2026-11-03T09:15:00.001Z''\<rparr>))\<rparr>) \<noteq> stored missing_fs"
    by (simp add: missing_fs_def)
  from m run ne show ?thesis by blast
qed

text \<open>
  Claim C2, amended. After a successful run of \<open>processHumanMessages\<close> (the read
  document has a pending message from \<open>human\<close> to \<open>ai\<close>, the operator selects one and
  supplies a non-empty reply, and the write succeeds) on a document whose pending
  messages have distinct ids, the written document is as follows: the selected message
  has \<open>resolved\<close> true and is otherwise as before; exactly one message is appended, with
  \<open>from = ai\<close>, \<open>to = human\<close>, type \<open>response\<close>, the title of the selected message after
  \<open>Re: \<close>, the reply as body, \<open>resolved\<close> false and \<open>inReplyTo\<close> the id of the selected
  message; no other message is altered; and \<open>revision\<close> is the sum of the read revision
  and 1 as the doubles give it, which is the read revision plus 1 when the read revision
  is an integer of magnitude at most \<open>2 ^ 53 - 1\<close>.
\<close>

theorem processHumanMessages_success:
  fixes sel :: nat
  assumes rd: "read (hc_read c) fs = Inr (state, fs1)"
      and k: "k < length (pending_of (messages state))"
      and ids: "distinct (map (\<lambda>i. msg_id (messages state ! i)) (pending_of (messages state)))"
      and ans: "answer \<noteq> []"
      and wr: "writable fs"
  defines "sel \<equiv> pending_of (messages state) ! k"
  shows "\<exists>written added.
           processHumanMessages c (Some k) (Some answer) (Some fs)
             = Inr ([Post (StateMsg written)], Some (fs\<lparr>stored := Decodes (encode written)\<rparr>))
         \<and> sel < length (messages state) \<and> is_pending (messages state ! sel)
         \<and> messages written
             = (messages state)[sel := (messages state ! sel)\<lparr>resolved := True\<rparr>] @ [added]
         \<and> resolved (messages written ! sel)
         \<and> (\<forall>j < length (messages state). j \<noteq> sel \<longrightarrow>
               messages written ! j = messages state ! j)
         \<and> msg_from added = Ai \<and> msg_to added = Human \<and> msg_type added = ''response''
         \<and> msg_title added = ''Re: '' @ msg_title (messages state ! sel)
         \<and> msg_body added = answer \<and> \<not> resolved added
         \<and> inReplyTo added = Some (msg_id (messages state ! sel))
         \<and> msg_id added = ''msg-'' @ decimal (hc_millis c)
         \<and> msg_createdAt added = hc_created c
         \<and> revision written = (case js_add (revision state) 1 of Finite r \<Rightarrow> r | _ \<Rightarrow> 1)
         \<and> (\<forall>n::int. revision state = of_int n \<and> \<bar>n\<bar> \<le> 2 ^ 53 - 1 \<longrightarrow>
               revision written = revision state + 1)
         \<and> tasks written = tasks state
         \<and> updatedAt written = wc_stamp (hc_write c)"
proof -
  let ?msgs = "messages state"
  let ?marked = "?msgs[sel := (?msgs ! sel)\<lparr>resolved := True\<rparr>]"
  let ?added = "reply (hc_millis c) (hc_created c) answer ((?msgs ! sel)\<lparr>resolved := True\<rparr>)"
  let ?written = "\<lparr>revision = (case js_add (revision state) 1 of Finite r \<Rightarrow> r | _ \<Rightarrow> 1),
                   updatedAt = wc_stamp (hc_write c), tasks = tasks state,
                   messages = ?marked @ [?added]\<rparr>"
  from k have "sel \<in> set (pending_of ?msgs)" by (simp add: sel_def)
  then have sel: "sel < length ?msgs" and pen: "is_pending (?msgs ! sel)"
    using pending_of_bound by blast+
  have src: "find (\<lambda>i. msg_id (?msgs ! i) = msg_id (?msgs ! (pending_of ?msgs ! k)))
               (pending_of ?msgs) = Some sel"
    unfolding sel_def
    using find_distinct_nth[where f = "\<lambda>i. msg_id (?msgs ! i)", OF ids k] .
  have run: "processHumanMessages c (Some k) (Some answer) (Some fs)
               = Inr ([Post (StateMsg ?written)],
                      Some (fs\<lparr>stored := Decodes (encode ?written)\<rparr>))"
    by (rule workflow_run_at[OF rd k src ans wr])
  have at_sel: "resolved (messages ?written ! sel)"
    using sel by (simp add: nth_append)
  have others: "\<forall>j < length ?msgs. j \<noteq> sel \<longrightarrow> messages ?written ! j = ?msgs ! j"
    by (simp add: nth_append)
  have added: "msg_from ?added = Ai" "msg_to ?added = Human" "msg_type ?added = ''response''"
    "msg_title ?added = ''Re: '' @ msg_title (?msgs ! sel)" "msg_body ?added = answer"
    "\<not> resolved ?added" "inReplyTo ?added = Some (msg_id (?msgs ! sel))"
    "msg_id ?added = ''msg-'' @ decimal (hc_millis c)" "msg_createdAt ?added = hc_created c"
    by (simp_all add: reply_def)
  have safe: "\<forall>n::int. revision state = of_int n \<and> \<bar>n\<bar> \<le> 2 ^ 53 - 1 \<longrightarrow>
                revision ?written = revision state + 1"
    by (auto simp add: js_add_safe)
  show ?thesis
    apply (rule exI[of _ ?written], rule exI[of _ ?added])
    using run sel pen at_sel others added safe by simp
qed

theorem processHumanMessages_success_witness:
  "read (hc_read example_workflow_clock) thread_fs = Inr (example_thread, thread_fs)
   \<and> 1 < length (pending_of (messages example_thread))
   \<and> distinct (map (\<lambda>i. msg_id (messages example_thread ! i))
         (pending_of (messages example_thread)))
   \<and> ''On it'' \<noteq> []
   \<and> writable thread_fs
   \<and> pending_of (messages example_thread) ! 1 = 2
   \<and> messages example_thread ! 2 = example_followup
   \<and> revision example_thread = of_int 7 \<and> \<bar>7 :: int\<bar> \<le> 2 ^ 53 - 1
   \<and> (\<exists>written added.
           processHumanMessages example_workflow_clock (Some 1) (Some ''On it'') (Some thread_fs)
             = Inr ([Post (StateMsg written)],
                    Some (thread_fs\<lparr>stored := Decodes (encode written)\<rparr>))
         \<and> 2 < length (messages example_thread) \<and> is_pending (messages example_thread ! 2)
         \<and> messages written
             = (messages example_thread)[2 := (messages example_thread ! 2)\<lparr>resolved := True\<rparr>]
                 @ [added]
         \<and> resolved (messages written ! 2)
         \<and> (\<forall>j < length (messages example_thread). j \<noteq> 2 \<longrightarrow>
               messages written ! j = messages example_thread ! j)
         \<and> msg_from added = Ai \<and> msg_to added = Human \<and> msg_type added = ''response''
         \<and> msg_title added = ''Re: '' @ msg_title (messages example_thread ! 2)
         \<and> msg_body added = ''On it'' \<and> \<not> resolved added
         \<and> inReplyTo added = Some (msg_id (messages example_thread ! 2))
         \<and> msg_id added = ''msg-'' @ decimal (hc_millis example_workflow_clock)
         \<and> msg_createdAt added = hc_created example_workflow_clock
         \<and> revision written
             = (case js_add (revision example_thread) 1 of Finite r \<Rightarrow> r | _ \<Rightarrow> 1)
         \<and> (\<forall>n::int. revision example_thread = of_int n \<and> \<bar>n\<bar> \<le> 2 ^ 53 - 1 \<longrightarrow>
               revision written = revision example_thread + 1)
         \<and> tasks written = tasks example_thread
         \<and> updatedAt written = wc_stamp (hc_write example_workflow_clock))"
proof -
  have rd: "read (hc_read example_workflow_clock) thread_fs = Inr (example_thread, thread_fs)"
    unfolding thread_fs_def by (rule read_example)
  have k: "1 < length (pending_of (messages example_thread))"
    by (simp add: thread_pending)
  have ids: "distinct (map (\<lambda>i. msg_id (messages example_thread ! i))
               (pending_of (messages example_thread)))"
    unfolding thread_pending
    by (simp add: example_thread_def example_question_def example_followup_def)
  have ans: "''On it'' \<noteq> []" by simp
  have wr: "writable thread_fs" by (simp add: thread_fs_def)
  have sel: "pending_of (messages example_thread) ! 1 = 2"
    by (simp add: thread_pending)
  have q: "messages example_thread ! 2 = example_followup"
    by (simp add: example_thread_def)
  have r: "revision example_thread = of_int 7"
    by (simp add: example_thread_def)
  have b: "\<bar>7 :: int\<bar> \<le> 2 ^ 53 - 1" by simp
  note run = processHumanMessages_success[OF rd k ids ans wr, unfolded sel]
  show ?thesis
    by (intro conjI rd k ids ans wr sel q r b run)
qed

text \<open>
  The claim as stated fails twice. With two pending messages of one id and the second
  one selected, the source finds the first one by that id: the first is resolved and
  quoted in the reply, the selected one stays unresolved. With the read revision at
  \<open>2 ^ 53\<close>, the addition of 1 gives \<open>2 ^ 53\<close> again, and the written revision is the read
  revision.
\<close>

theorem processHumanMessages_wrong_message_counterexample:
  "pending_of (messages duplicate_thread) = [0, 1]
   \<and> processHumanMessages example_workflow_clock (Some 1) (Some ''On it'') (Some duplicate_fs)
       = Inr ([Post (StateMsg
                \<lparr>revision = 8, updatedAt = ''2026-11-03T09:15:00.001Z'', tasks = [],
                 messages = [example_question\<lparr>resolved := True\<rparr>,
                             example_followup\<lparr>msg_id := ''msg-q1''\<rparr>,
                             reply 1793697300002 ''2026-11-03T09:15:00.002Z'' ''On it''
                               (example_question\<lparr>resolved := True\<rparr>)]\<rparr>)],
              Some (duplicate_fs\<lparr>stored := Decodes (encode
                \<lparr>revision = 8, updatedAt = ''2026-11-03T09:15:00.001Z'', tasks = [],
                 messages = [example_question\<lparr>resolved := True\<rparr>,
                             example_followup\<lparr>msg_id := ''msg-q1''\<rparr>,
                             reply 1793697300002 ''2026-11-03T09:15:00.002Z'' ''On it''
                               (example_question\<lparr>resolved := True\<rparr>)]\<rparr>)\<rparr>))
   \<and> \<not> resolved (example_followup\<lparr>msg_id := ''msg-q1''\<rparr>)
   \<and> revision saturated_state = 2 ^ 53
   \<and> processHumanMessages example_workflow_clock (Some 0) (Some ''On it'') (Some saturated_fs)
       = Inr ([Post (StateMsg
                \<lparr>revision = 2 ^ 53, updatedAt = ''2026-11-03T09:15:00.001Z'', tasks = [],
                 messages = [example_note, example_question\<lparr>resolved := True\<rparr>,
                             reply 1793697300002 ''2026-11-03T09:15:00.002Z'' ''On it''
                               (example_question\<lparr>resolved := True\<rparr>)]\<rparr>)],
              Some (saturated_fs\<lparr>stored := Decodes (encode
                \<lparr>revision = 2 ^ 53, updatedAt = ''2026-11-03T09:15:00.001Z'', tasks = [],
                 messages = [example_note, example_question\<lparr>resolved := True\<rparr>,
                             reply 1793697300002 ''2026-11-03T09:15:00.002Z'' ''On it''
                               (example_question\<lparr>resolved := True\<rparr>)]\<rparr>)\<rparr>))
   \<and> (2 ^ 53 :: rat) \<noteq> 2 ^ 53 + 1"
proof -
  have rd1: "read (hc_read example_workflow_clock) duplicate_fs = Inr (duplicate_thread, duplicate_fs)"
    unfolding duplicate_fs_def by (rule read_example)
  have k1: "1 < length (pending_of (messages duplicate_thread))"
    by (simp add: duplicate_pending)
  have src1: "find (\<lambda>i. msg_id (messages duplicate_thread ! i)
                     = msg_id (messages duplicate_thread ! (pending_of (messages duplicate_thread) ! 1)))
                (pending_of (messages duplicate_thread)) = Some 0"
    unfolding duplicate_pending
    by (simp add: duplicate_thread_def example_question_def example_followup_def)
  have wr1: "writable duplicate_fs" by (simp add: duplicate_fs_def)
  have ans: "''On it'' \<noteq> []" by simp
  note run1 = workflow_run_at[OF rd1 k1 src1 ans wr1]
  have a: "processHumanMessages example_workflow_clock (Some 1) (Some ''On it'') (Some duplicate_fs)
       = Inr ([Post (StateMsg
                \<lparr>revision = 8, updatedAt = ''2026-11-03T09:15:00.001Z'', tasks = [],
                 messages = [example_question\<lparr>resolved := True\<rparr>,
                             example_followup\<lparr>msg_id := ''msg-q1''\<rparr>,
                             reply 1793697300002 ''2026-11-03T09:15:00.002Z'' ''On it''
                               (example_question\<lparr>resolved := True\<rparr>)]\<rparr>)],
              Some (duplicate_fs\<lparr>stored := Decodes (encode
                \<lparr>revision = 8, updatedAt = ''2026-11-03T09:15:00.001Z'', tasks = [],
                 messages = [example_question\<lparr>resolved := True\<rparr>,
                             example_followup\<lparr>msg_id := ''msg-q1''\<rparr>,
                             reply 1793697300002 ''2026-11-03T09:15:00.002Z'' ''On it''
                               (example_question\<lparr>resolved := True\<rparr>)]\<rparr>)\<rparr>))"
    unfolding run1
    by (simp add: duplicate_thread_def js_add_examples example_workflow_clock_def
          example_write_clock_def)
  have b: "\<not> resolved (example_followup\<lparr>msg_id := ''msg-q1''\<rparr>)"
    by (simp add: example_followup_def)
  have rev: "revision saturated_state = 2 ^ 53" by (simp add: saturated_state_def)
  have rd2: "read (hc_read example_workflow_clock) saturated_fs = Inr (saturated_state, saturated_fs)"
    unfolding saturated_fs_def by (rule read_example)
  have k2: "0 < length (pending_of (messages saturated_state))"
    by (simp add: saturated_pending)
  have src2: "find (\<lambda>i. msg_id (messages saturated_state ! i)
                     = msg_id (messages saturated_state ! (pending_of (messages saturated_state) ! 0)))
                (pending_of (messages saturated_state)) = Some 1"
    unfolding saturated_pending by simp
  have wr2: "writable saturated_fs" by (simp add: saturated_fs_def)
  note run2 = workflow_run_at[OF rd2 k2 src2 ans wr2]
  have sat: "(case js_add (revision saturated_state) 1 of Finite r \<Rightarrow> r | _ \<Rightarrow> 1) = 2 ^ 53"
    unfolding rev js_add_2_53 by simp
  have c: "processHumanMessages example_workflow_clock (Some 0) (Some ''On it'') (Some saturated_fs)
       = Inr ([Post (StateMsg
                \<lparr>revision = 2 ^ 53, updatedAt = ''2026-11-03T09:15:00.001Z'', tasks = [],
                 messages = [example_note, example_question\<lparr>resolved := True\<rparr>,
                             reply 1793697300002 ''2026-11-03T09:15:00.002Z'' ''On it''
                               (example_question\<lparr>resolved := True\<rparr>)]\<rparr>)],
              Some (saturated_fs\<lparr>stored := Decodes (encode
                \<lparr>revision = 2 ^ 53, updatedAt = ''2026-11-03T09:15:00.001Z'', tasks = [],
                 messages = [example_note, example_question\<lparr>resolved := True\<rparr>,
                             reply 1793697300002 ''2026-11-03T09:15:00.002Z'' ''On it''
                               (example_question\<lparr>resolved := True\<rparr>)]\<rparr>)\<rparr>))"
    unfolding run2 sat
    by (simp add: saturated_state_def example_state_def example_workflow_clock_def
          example_write_clock_def)
  have d: "(2 ^ 53 :: rat) \<noteq> 2 ^ 53 + 1" by simp
  from duplicate_pending a b rev c d show ?thesis by (intro conjI)
qed

section \<open>Revisions\<close>

text \<open>
  Claim C6, amended. The seed document has revision 1. A successful save from the view
  stores the sum of the revision of the view's copy and 1, as the doubles give it: the
  store neither increments the stored revision nor compares with it. So when the view's
  copy carries the revision stored before and that revision is an integer of magnitude
  at most \<open>2 ^ 53 - 1\<close>, the stored revision after the save is an integer, strictly
  greater than the one stored before, by 1.
\<close>

theorem save_stores_view_revision:
  assumes "writable fs"
  shows "\<exists>saved.
           saveFromWebview c (saveState now view) (Some fs)
             = Inr ([Post (StateMsg saved)], Some (fs\<lparr>stored := Decodes (encode saved)\<rparr>))
         \<and> revision saved
             = (case js_add (or_zero (revision view)) 1 of Finite r \<Rightarrow> r | _ \<Rightarrow> 1)
         \<and> stored_revision (fs\<lparr>stored := Decodes (encode saved)\<rparr>) = Some (revision saved)
         \<and> (\<forall>n::int. stored_revision fs = Some (of_int n) \<and> revision view = of_int n
                 \<and> \<bar>n\<bar> \<le> 2 ^ 53 - 1 \<longrightarrow>
               stored_revision (fs\<lparr>stored := Decodes (encode saved)\<rparr>) = Some (of_int (n + 1))
               \<and> (of_int n :: rat) < of_int (n + 1))
         \<and> revision (defaultState t) = 1"
proof -
  let ?saved = "\<lparr>revision = (case js_add (or_zero (revision view)) 1 of
                                Finite r \<Rightarrow> r | _ \<Rightarrow> 1),
                  updatedAt = wc_stamp c, tasks = tasks view, messages = messages view\<rparr>"
  have run: "saveFromWebview c (saveState now view) (Some fs)
             = Inr ([Post (StateMsg ?saved)], Some (fs\<lparr>stored := Decodes (encode ?saved)\<rparr>))"
    by (rule save_run[OF assms])
  have st: "stored_revision (fs\<lparr>stored := Decodes (encode ?saved)\<rparr>) = Some (revision ?saved)"
    by (rule stored_revision_encode)
  have safe: "\<forall>n::int. stored_revision fs = Some (of_int n) \<and> revision view = of_int n
                 \<and> \<bar>n\<bar> \<le> 2 ^ 53 - 1 \<longrightarrow>
               stored_revision (fs\<lparr>stored := Decodes (encode ?saved)\<rparr>) = Some (of_int (n + 1))
               \<and> (of_int n :: rat) < of_int (n + 1)"
    by (auto simp add: stored_revision_encode or_zero_of_int js_add_safe)
  show ?thesis
    apply (rule exI[of _ ?saved])
    using run st safe by (simp add: seed_shape)
qed

theorem save_stores_view_revision_witness:
  "writable example_fs
   \<and> stored_revision example_fs = Some (of_int 7) \<and> revision example_state = of_int 7
   \<and> \<bar>7 :: int\<bar> \<le> 2 ^ 53 - 1
   \<and> (\<exists>saved.
           saveFromWebview example_write_clock
               (saveState ''2026-11-03T09:15:00.000Z'' example_state) (Some example_fs)
             = Inr ([Post (StateMsg saved)],
                    Some (example_fs\<lparr>stored := Decodes (encode saved)\<rparr>))
         \<and> revision saved = 8
         \<and> stored_revision (example_fs\<lparr>stored := Decodes (encode saved)\<rparr>) = Some 8)"
proof -
  have w: "writable example_fs" by (simp add: example_fs_def)
  have r: "revision example_state = of_int 7" by (simp add: example_state_def)
  have b: "\<bar>7 :: int\<bar> \<le> 2 ^ 53 - 1" by simp
  from save_stores_view_revision[OF w, where c = example_write_clock
         and now = "''2026-11-03T09:15:00.000Z''" and view = example_state and t = "[]"]
  obtain saved where
    run: "saveFromWebview example_write_clock
               (saveState ''2026-11-03T09:15:00.000Z'' example_state) (Some example_fs)
             = Inr ([Post (StateMsg saved)],
                    Some (example_fs\<lparr>stored := Decodes (encode saved)\<rparr>))"
    and st: "stored_revision (example_fs\<lparr>stored := Decodes (encode saved)\<rparr>)
               = Some (revision saved)"
    and safe: "\<forall>n::int. stored_revision example_fs = Some (of_int n)
                 \<and> revision example_state = of_int n \<and> \<bar>n\<bar> \<le> 2 ^ 53 - 1 \<longrightarrow>
               stored_revision (example_fs\<lparr>stored := Decodes (encode saved)\<rparr>)
                 = Some (of_int (n + 1))
               \<and> (of_int n :: rat) < of_int (n + 1)"
    by (elim exE conjE) (rule that, assumption+)
  from safe[rule_format, of 7] example_stored_revision r b
  have s8: "stored_revision (example_fs\<lparr>stored := Decodes (encode saved)\<rparr>) = Some 8"
    by simp
  with st have r8: "revision saved = 8" by simp
  show ?thesis
    using w example_stored_revision r b run r8 s8 by blast
qed

text \<open>
  The claim as stated fails twice. When the view's copy is not the stored document: the
  file holds revision 7, the view saves from the copy it starts with (revision 1), and
  the file then holds revision 2. And when the revision has reached \<open>2 ^ 53\<close>: the view's
  copy is the stored document, and the save stores \<open>2 ^ 53\<close> again.
\<close>

theorem save_revision_not_increasing_counterexample:
  "stored_revision example_fs = Some 7
   \<and> saveFromWebview example_write_clock
        (saveState ''2026-11-03T09:15:00.000Z'' (initial_view ''2026-11-03T09:14:59.000Z''))
        (Some example_fs)
      = Inr ([Post (StateMsg \<lparr>revision = 2, updatedAt = ''2026-11-03T09:15:00.001Z'',
                               tasks = [], messages = []\<rparr>)],
             Some (example_fs\<lparr>stored := Decodes (encode
               \<lparr>revision = 2, updatedAt = ''2026-11-03T09:15:00.001Z'',
                tasks = [], messages = []\<rparr>)\<rparr>))
   \<and> stored_revision (example_fs\<lparr>stored := Decodes (encode
               \<lparr>revision = 2, updatedAt = ''2026-11-03T09:15:00.001Z'',
                tasks = [] :: TrackerTask list, messages = [] :: TrackerMessage list\<rparr>)\<rparr>)
       = Some 2
   \<and> \<not> ((7 :: rat) < 2)
   \<and> stored_revision saturated_fs = Some (2 ^ 53)
   \<and> revision saturated_state = 2 ^ 53
   \<and> saveFromWebview example_write_clock
        (saveState ''2026-11-03T09:15:00.000Z'' saturated_state) (Some saturated_fs)
      = Inr ([Post (StateMsg \<lparr>revision = 2 ^ 53, updatedAt = ''2026-11-03T09:15:00.001Z'',
                tasks = [], messages = [example_note, example_question]\<rparr>)],
             Some (saturated_fs\<lparr>stored := Decodes (encode
               \<lparr>revision = 2 ^ 53, updatedAt = ''2026-11-03T09:15:00.001Z'',
                tasks = [], messages = [example_note, example_question]\<rparr>)\<rparr>))
   \<and> stored_revision (saturated_fs\<lparr>stored := Decodes (encode
               \<lparr>revision = 2 ^ 53, updatedAt = ''2026-11-03T09:15:00.001Z'',
                tasks = [], messages = [example_note, example_question]\<rparr>)\<rparr>)
       = Some (2 ^ 53)
   \<and> \<not> ((2 ^ 53 :: rat) < 2 ^ 53)"
proof -
  have s: "stored_revision example_fs = Some 7"
    using example_stored_revision by simp
  have w: "writable example_fs" by (simp add: example_fs_def)
  have one: "(case js_add (or_zero (revision (initial_view ''2026-11-03T09:14:59.000Z''))) 1 of
               Finite r \<Rightarrow> r | _ \<Rightarrow> 1) = 2"
    by (simp add: initial_view_def or_zero_def js_add_examples)
  have run: "saveFromWebview example_write_clock
        (saveState ''2026-11-03T09:15:00.000Z'' (initial_view ''2026-11-03T09:14:59.000Z''))
        (Some example_fs)
      = Inr ([Post (StateMsg \<lparr>revision = 2, updatedAt = ''2026-11-03T09:15:00.001Z'',
                               tasks = [], messages = []\<rparr>)],
             Some (example_fs\<lparr>stored := Decodes (encode
               \<lparr>revision = 2, updatedAt = ''2026-11-03T09:15:00.001Z'',
                tasks = [], messages = []\<rparr>)\<rparr>))"
    unfolding save_run[OF w] one
    by (simp add: initial_view_def example_write_clock_def)
  have st: "stored_revision (example_fs\<lparr>stored := Decodes (encode
               \<lparr>revision = 2, updatedAt = ''2026-11-03T09:15:00.001Z'',
                tasks = [] :: TrackerTask list, messages = [] :: TrackerMessage list\<rparr>)\<rparr>)
       = Some 2"
    by (simp add: stored_revision_encode)
  have w2: "writable saturated_fs" by (simp add: saturated_fs_def)
  have rev: "revision saturated_state = 2 ^ 53" by (simp add: saturated_state_def)
  have sat: "(case js_add (or_zero (revision saturated_state)) 1 of
               Finite r \<Rightarrow> r | _ \<Rightarrow> 1) = 2 ^ 53"
  proof -
    have "or_zero (revision saturated_state) = 2 ^ 53"
      unfolding rev by (simp add: or_zero_def)
    then show ?thesis by (simp only: js_add_2_53 jsnumber.case)
  qed
  have run2: "saveFromWebview example_write_clock
        (saveState ''2026-11-03T09:15:00.000Z'' saturated_state) (Some saturated_fs)
      = Inr ([Post (StateMsg \<lparr>revision = 2 ^ 53, updatedAt = ''2026-11-03T09:15:00.001Z'',
                tasks = [], messages = [example_note, example_question]\<rparr>)],
             Some (saturated_fs\<lparr>stored := Decodes (encode
               \<lparr>revision = 2 ^ 53, updatedAt = ''2026-11-03T09:15:00.001Z'',
                tasks = [], messages = [example_note, example_question]\<rparr>)\<rparr>))"
    unfolding save_run[OF w2] sat
    by (simp add: example_write_clock_def saturated_state_def example_state_def)
  have st2: "stored_revision (saturated_fs\<lparr>stored := Decodes (encode
               \<lparr>revision = 2 ^ 53, updatedAt = ''2026-11-03T09:15:00.001Z'',
                tasks = [], messages = [example_note, example_question]\<rparr>)\<rparr>)
       = Some (2 ^ 53)"
    by (simp add: stored_revision_encode)
  have n1: "\<not> ((7 :: rat) < 2)" and n2: "\<not> ((2 ^ 53 :: rat) < 2 ^ 53)" by simp_all
  show ?thesis
    by (intro conjI s run st n1 saturated_stored_revision rev run2 st2 n2)
qed

section \<open>The seed\<close>

text \<open>
  Claim C7, amended. After the operator confirms, \<open>seedRoadmap\<close> replaces the stored
  document, whatever it was: the stored \<open>tasks\<close> and \<open>messages\<close> are exactly those of the
  seed and \<open>revision\<close> is 1. The seed has 5 tasks in 3 milestones, with none done: 0 of
  2 done in \<open>M1 Foundation\<close>, 0 of 2 in \<open>M2 Collaboration\<close>, 0 of 1 in \<open>M3 Release\<close>; and
  one message, from \<open>ai\<close> to \<open>human\<close>, not resolved.
\<close>

theorem seedRoadmap_replaces:
  assumes "writable fs"
  shows "\<exists>d. seedRoadmap c (Some ''Replace'') (Some fs)
               = Inr ([Post (StateMsg d), Notify (Information ''Tracker roadmap initialized.'')],
                      Some (fs\<lparr>stored := Decodes (encode d)\<rparr>))
           \<and> tasks d = tasks (defaultState (sc_default c))
           \<and> messages d = messages (defaultState (sc_default c))
           \<and> revision d = 1
           \<and> length (tasks d) = 5
           \<and> milestone_counts (tasks d)
               = [(''M1 Foundation'', 0, 2), (''M2 Collaboration'', 0, 2), (''M3 Release'', 0, 1)]
           \<and> map (\<lambda>m. (msg_from m, msg_to m, resolved m)) (messages d) = [(Ai, Human, False)]"
proof -
  let ?d = "(defaultState (sc_default c))\<lparr>updatedAt := wc_stamp (sc_write c)\<rparr>"
  have run: "seedRoadmap c (Some ''Replace'') (Some fs)
               = Inr ([Post (StateMsg ?d), Notify (Information ''Tracker roadmap initialized.'')],
                      Some (fs\<lparr>stored := Decodes (encode ?d)\<rparr>))"
    using assms
    by (simp add: seedRoadmap_def Let_def write_state_encode pushState_after_write)
  show ?thesis
    apply (rule exI[of _ ?d])
    using run by (simp add: seed_counts seed_shape)
qed

theorem seedRoadmap_replaces_witness:
  "writable example_fs
   \<and> (\<exists>d. seedRoadmap example_seed_clock (Some ''Replace'') (Some example_fs)
               = Inr ([Post (StateMsg d), Notify (Information ''Tracker roadmap initialized.'')],
                      Some (example_fs\<lparr>stored := Decodes (encode d)\<rparr>))
           \<and> tasks d = tasks (defaultState (sc_default example_seed_clock))
           \<and> messages d = messages (defaultState (sc_default example_seed_clock))
           \<and> revision d = 1
           \<and> length (tasks d) = 5
           \<and> milestone_counts (tasks d)
               = [(''M1 Foundation'', 0, 2), (''M2 Collaboration'', 0, 2), (''M3 Release'', 0, 1)]
           \<and> map (\<lambda>m. (msg_from m, msg_to m, resolved m)) (messages d) = [(Ai, Human, False)])"
proof -
  have w: "writable example_fs" by (simp add: example_fs_def)
  note run = seedRoadmap_replaces[OF w, of example_seed_clock]
  show ?thesis by (intro conjI w run)
qed

text \<open>
  The claim as stated fails on the seed itself: the milestone \<open>M1 Foundation\<close> has 0
  tasks done of 2, not 2 done, and no task of the seed is in lane \<open>done\<close>.
\<close>

theorem seed_done_in_M1_counterexample:
  "map_of (milestone_counts (tasks (defaultState ''2026-11-03T09:15:00.000Z''))) ''M1 Foundation''
     = Some (0, 2)
   \<and> map_option fst
        (map_of (milestone_counts (tasks (defaultState ''2026-11-03T09:15:00.000Z'')))
           ''M1 Foundation'') \<noteq> Some 2
   \<and> filter (\<lambda>t. lane t = LaneDone) (tasks (defaultState ''2026-11-03T09:15:00.000Z'')) = []"
proof -
  have "filter (\<lambda>t. lane t = LaneDone) (tasks (defaultState ''2026-11-03T09:15:00.000Z'')) = []"
    by (simp add: defaultState_def)
  then show ?thesis by (simp add: seed_counts)
qed

section \<open>The task buttons\<close>

text \<open>
  Claim C9. For every task, advancing moves the lane along \<open>todo\<close>, \<open>progress\<close>, \<open>done\<close>
  and never back. A task in lane \<open>todo\<close> advanced twice is in lane \<open>done\<close> with status
  \<open>done\<close>, and advancing it a third time leaves it unchanged.
\<close>

theorem advance_moves_forward:
  "lane (advance task) = nextLane (lane task)
   \<and> lane_rank (lane task) \<le> lane_rank (lane (advance task))
   \<and> nextLane LaneTodo = LaneProgress \<and> nextLane LaneProgress = LaneDone
   \<and> nextLane LaneDone = LaneDone
   \<and> (lane task = LaneTodo \<longrightarrow>
        lane (advance (advance task)) = LaneDone
        \<and> status (advance (advance task)) = StatusDone
        \<and> advance (advance (advance task)) = advance (advance task)
        \<and> lane (advance (advance (advance task))) = LaneDone
        \<and> status (advance (advance (advance task))) = StatusDone)"
  by (cases "lane task") (simp_all add: advance_def nextLane_def lane_rank_def Let_def)

theorem advance_moves_forward_witness:
  "lane (tasks (defaultState ''2026-11-03T09:15:00.000Z'') ! 1) = LaneTodo
   \<and> lane (advance (advance (tasks (defaultState ''2026-11-03T09:15:00.000Z'') ! 1))) = LaneDone
   \<and> status (advance (advance (tasks (defaultState ''2026-11-03T09:15:00.000Z'') ! 1)))
       = StatusDone
   \<and> advance (advance (advance (tasks (defaultState ''2026-11-03T09:15:00.000Z'') ! 1)))
       = advance (advance (tasks (defaultState ''2026-11-03T09:15:00.000Z'') ! 1))"
proof -
  have l: "lane (tasks (defaultState ''2026-11-03T09:15:00.000Z'') ! 1) = LaneTodo"
    by (simp add: defaultState_def)
  from advance_moves_forward[of "tasks (defaultState ''2026-11-03T09:15:00.000Z'') ! 1"] l
  show ?thesis by blast
qed

text \<open>
  Claim C10, evaluated at the second task of the seed (lane \<open>todo\<close>, status \<open>todo\<close>).
  The first toggle sets status \<open>blocked\<close> and keeps the lane; the second toggle sets
  status \<open>progress\<close>, where the claim says \<open>todo\<close>.
\<close>

theorem toggle_block_todo_evaluation:
  "lane (tasks (defaultState ''2026-11-03T09:15:00.000Z'') ! 1) = LaneTodo
   \<and> status (tasks (defaultState ''2026-11-03T09:15:00.000Z'') ! 1) = StatusTodo
   \<and> status (toggle_block (tasks (defaultState ''2026-11-03T09:15:00.000Z'') ! 1)) = StatusBlocked
   \<and> lane (toggle_block (toggle_block (tasks (defaultState ''2026-11-03T09:15:00.000Z'') ! 1)))
       = LaneTodo
   \<and> status (toggle_block (toggle_block (tasks (defaultState ''2026-11-03T09:15:00.000Z'') ! 1)))
       = StatusProgress"
  by (simp add: defaultState_def toggle_block_def)

end
